theory Spec2Isabelle
  imports Complex_Main "HOL-Library.Word"
begin

section \<open>JavaScript strings and values\<close>

text \<open>
  A JavaScript string is a sequence of 16-bit code units; \<open>length\<close> counts code units,
  as the \<open>.length\<close> property does. ASCII and Latin-1 literals of the source are written
  with \<open>js\<close>; code units beyond Latin-1 are given by number.
\<close>

type_synonym jschar = "16 word"
type_synonym jsstring = "jschar list"

definition js :: "string \<Rightarrow> jsstring" where
  "js cs = map of_char cs"

text \<open>
  The set behind \<open>\s\<close> in a regular expression and behind \<open>String.prototype.trim\<close>:
  ECMAScript's WhiteSpace and LineTerminator code points.
\<close>

definition isWhiteSpace :: "jschar \<Rightarrow> bool" where
  "isWhiteSpace c \<longleftrightarrow>
     c = 0x0009 \<or> c = 0x000A \<or> c = 0x000B \<or> c = 0x000C \<or> c = 0x000D \<or> c = 0x0020 \<or>
     c = 0x00A0 \<or> c = 0x1680 \<or> (0x2000 \<le> c \<and> c \<le> 0x200A) \<or>
     c = 0x2028 \<or> c = 0x2029 \<or> c = 0x202F \<or> c = 0x205F \<or> c = 0x3000 \<or> c = 0xFEFF"

definition trim :: "jsstring \<Rightarrow> jsstring" where
  "trim s = rev (dropWhile isWhiteSpace (rev (dropWhile isWhiteSpace s)))"

text \<open>
  Values as \<open>JSON.parse\<close> and \<open>Response.json\<close> produce them, plus \<open>undefined\<close>, which
  reading a missing property yields. A JSON number is a finite double, hence a rational.
  An object is its list of own properties (keys unique).
\<close>

datatype jsvalue =
    JUndefined
  | JNull
  | JBool bool
  | JNum rat
  | JStr jsstring
  | JArr "jsvalue list"
  | JObj "(jsstring \<times> jsvalue) list"

datatype js_exn = Error jsstring | TypeError jsstring | SyntaxError jsstring

fun message :: "js_exn \<Rightarrow> jsstring" where
  "message (Error m) = m"
| "message (TypeError m) = m"
| "message (SyntaxError m) = m"

text \<open>
  The built-ins of the engine that the scripts call and whose results the repository does
  not determine. They are parameters of the model: every theorem below holds for every
  host.
\<close>

record host =
  toLowerCase :: "jsstring \<Rightarrow> jsstring"
  JSON_stringify :: "jsvalue \<Rightarrow> jsstring"
  JSON_parse :: "jsstring \<Rightarrow> js_exn + jsvalue"
  Number_toString :: "rat \<Rightarrow> jsstring"
  nullish_read_message :: "jsvalue \<Rightarrow> jsstring \<Rightarrow> jsstring"
  to_primitive_message :: "jsvalue \<Rightarrow> jsstring"

fun truthy :: "jsvalue \<Rightarrow> bool" where
  "truthy JUndefined = False"
| "truthy JNull = False"
| "truthy (JBool b) = b"
| "truthy (JNum q) = (q \<noteq> 0)"
| "truthy (JStr s) = (s \<noteq> [])"
| "truthy (JArr vs) = True"
| "truthy (JObj kvs) = True"

fun nullish :: "jsvalue \<Rightarrow> bool" where
  "nullish JUndefined = True"
| "nullish JNull = True"
| "nullish v = False"

fun join_with :: "jsstring \<Rightarrow> jsstring list \<Rightarrow> jsstring" where
  "join_with sep [] = []"
| "join_with sep [x] = x"
| "join_with sep (x # y # ys) = x @ sep @ join_with sep (y # ys)"

text \<open>
  The abstract operation ToString, as template literals, \<open>new Error(x)\<close> and the
  \<open>textContent\<close> setter apply it. An array is joined with commas, its nullish elements
  as empty strings. A plain object is \<open>[object Object]\<close> by \<open>Object.prototype.toString\<close>,
  unless it has an own property \<open>toString\<close>: a parsed value is never callable, the
  inherited \<open>valueOf\<close> returns the object itself, and the engine throws a TypeError.
\<close>

fun ToString :: "host \<Rightarrow> jsvalue \<Rightarrow> js_exn + jsstring"
  and ToString_elements :: "host \<Rightarrow> jsvalue list \<Rightarrow> js_exn + jsstring list" where
  "ToString h JUndefined = Inr (js ''undefined'')"
| "ToString h JNull = Inr (js ''null'')"
| "ToString h (JBool b) = Inr (if b then js ''true'' else js ''false'')"
| "ToString h (JNum q) = Inr (Number_toString h q)"
| "ToString h (JStr s) = Inr s"
| "ToString h (JArr vs) =
     (case ToString_elements h vs of
        Inl e \<Rightarrow> Inl e
      | Inr xs \<Rightarrow> Inr (join_with (js '','') xs))"
| "ToString h (JObj kvs) =
     (case map_of kvs (js ''toString'') of
        None \<Rightarrow> Inr (js ''[object Object]'')
      | Some f \<Rightarrow> Inl (TypeError (to_primitive_message h (JObj kvs))))"
| "ToString_elements h [] = Inr []"
| "ToString_elements h (v # vs) =
     (case (if nullish v then Inr [] else ToString h v) of
        Inl e \<Rightarrow> Inl e
      | Inr x \<Rightarrow>
          (case ToString_elements h vs of
             Inl e \<Rightarrow> Inl e
           | Inr xs \<Rightarrow> Inr (x # xs)))"

text \<open>
  Reading a property \<open>v.k\<close>. On \<open>null\<close> and \<open>undefined\<close> the engine throws a TypeError.
  The scripts read only \<open>token\<close>, \<open>user\<close>, \<open>role\<close>, \<open>name\<close>, \<open>email\<close> and \<open>detail\<close>,
  none of which exists on the prototypes of primitives, arrays or plain objects.
\<close>

fun get_prop :: "host \<Rightarrow> jsvalue \<Rightarrow> jsstring \<Rightarrow> js_exn + jsvalue" where
  "get_prop h JUndefined k = Inl (TypeError (nullish_read_message h JUndefined k))"
| "get_prop h JNull k = Inl (TypeError (nullish_read_message h JNull k))"
| "get_prop h (JObj kvs) k = Inr (case map_of kvs k of None \<Rightarrow> JUndefined | Some v \<Rightarrow> v)"
| "get_prop h v k = Inr JUndefined"

text \<open>Optional chaining \<open>v?.k\<close>: \<open>undefined\<close> on a nullish \<open>v\<close>, never a throw.\<close>

definition opt_prop :: "host \<Rightarrow> jsvalue \<Rightarrow> jsstring \<Rightarrow> jsvalue" where
  "opt_prop h v k = (if nullish v then JUndefined
                     else case get_prop h v k of Inl e \<Rightarrow> JUndefined | Inr x \<Rightarrow> x)"

text \<open>Decimal rendering of an HTTP status inside a template literal.\<close>

fun show_nat :: "nat \<Rightarrow> jsstring" where
  "show_nat n = (if n < 10 then [of_nat (48 + n)]
                 else show_nat (n div 10) @ [of_nat (48 + n mod 10)])"

section \<open>The email regular expression\<close>

text \<open>
  Both pages define \<open>isValidEmail(value)\<close> as
  \<^verbatim>\<open>/^[^\s@]+@[^\s@]+\.[^\s@]+$/.test(value)\<close>.
  The pattern is a sequence of assertions (\<open>^\<close>, \<open>$\<close>), single characters and greedy
  \<open>+\<close> repetitions of a character class. \<open>rx_at\<close> is the backtracking matcher at one
  start position (the flag says whether that position is the start of the input);
  \<open>rx_test\<close> tries the start positions from left to right, as \<open>test\<close> does without
  the sticky flag.
\<close>

datatype rx_class = NotSpaceAt | Lit jschar

datatype rx_item = Bol | Eol | Once rx_class | Many rx_class

fun class_ok :: "rx_class \<Rightarrow> jschar \<Rightarrow> bool" where
  "class_ok NotSpaceAt c = (\<not> isWhiteSpace c \<and> c \<noteq> 0x40)"
| "class_ok (Lit d) c = (c = d)"

fun rx_at :: "rx_item list \<Rightarrow> bool \<Rightarrow> jsstring \<Rightarrow> bool" where
  "rx_at [] b s = True"
| "rx_at (Bol # r) b s = (b \<and> rx_at r b s)"
| "rx_at (Eol # r) b s = (s = [] \<and> rx_at r b s)"
| "rx_at (Once k # r) b [] = False"
| "rx_at (Once k # r) b (c # cs) = (class_ok k c \<and> rx_at r False cs)"
| "rx_at (Many k # r) b [] = False"
| "rx_at (Many k # r) b (c # cs) =
     (class_ok k c \<and> (rx_at (Many k # r) False cs \<or> rx_at r False cs))"

fun rx_test :: "rx_item list \<Rightarrow> bool \<Rightarrow> jsstring \<Rightarrow> bool" where
  "rx_test r b [] = rx_at r b []"
| "rx_test r b (c # cs) = (rx_at r b (c # cs) \<or> rx_test r False cs)"

definition email_rx :: "rx_item list" where
  "email_rx = [Bol, Many NotSpaceAt, Once (Lit 0x40), Many NotSpaceAt,
               Once (Lit 0x2E), Many NotSpaceAt, Eol]"

definition isValidEmail :: "jsstring \<Rightarrow> bool" where
  "isValidEmail v = rx_test email_rx True v"

text \<open>
  The specification's reading of the same pattern, independent of any matcher: the whole
  string is a non-empty run of non-space, non-\<open>@\<close> characters, an \<open>@\<close>, a second such run,
  a full stop, and a third such run.
\<close>

definition run :: "rx_class \<Rightarrow> jsstring \<Rightarrow> bool" where
  "run k w \<longleftrightarrow> w \<noteq> [] \<and> list_all (class_ok k) w"

definition matches_email_regex :: "jsstring \<Rightarrow> bool" where
  "matches_email_regex s \<longleftrightarrow>
     (\<exists>l d t. s = l @ [0x40] @ d @ [0x2E] @ t \<and>
        run NotSpaceAt l \<and> run NotSpaceAt d \<and> run NotSpaceAt t)"

section \<open>The browser window and the network\<close>

text \<open>
  What the scripts touch outside their own page: local storage, assignments to
  \<open>window.location.href\<close> (each starts a navigation; the list keeps them oldest first,
  and the last one written is the navigation that takes place), the callbacks handed to
  \<open>setTimeout\<close> with their delays, and \<open>alert\<close> boxes shown. Storage quota is not
  modelled: \<open>setItem\<close> succeeds.
\<close>

datatype callback = GoDashboard

record window =
  localStorage :: "jsstring \<rightharpoonup> jsstring"
  href_writes :: "jsstring list"
  timeouts :: "(nat \<times> callback) list"
  alerts :: "jsstring list"

definition session_key :: jsstring where
  "session_key = js ''session''"

definition login_html :: jsstring where
  "login_html = js ''./login.html''"

definition dashboard_html :: jsstring where
  "dashboard_html = js ''./dashboard.html''"

definition set_href :: "jsstring \<Rightarrow> 'a window_scheme \<Rightarrow> 'a window_scheme" where
  "set_href target w = w\<lparr>href_writes := href_writes w @ [target]\<rparr>"

text \<open>The only timer callback of the repository: \<^verbatim>\<open>() => { window.location.href = "./dashboard.html"; }\<close>.\<close>

fun run_callback :: "callback \<Rightarrow> 'a window_scheme \<Rightarrow> 'a window_scheme" where
  "run_callback GoDashboard w = set_href dashboard_html w"

text \<open>
  A request as \<open>fetch\<close> receives it, and how it settles: the promise rejects, or it
  resolves to a response with a status whose body either parses as JSON or makes
  \<open>res.json()\<close> reject. \<open>res.ok\<close> is true for the statuses 200 to 299.
\<close>

record request =
  url :: jsstring
  http_method :: jsstring
  headers :: "(jsstring \<times> jsstring) list"
  body :: jsstring

datatype body_result = BodyJson jsvalue | BodyError js_exn

datatype fetch_result = FetchRejected js_exn | FetchResponse nat body_result

definition res_ok :: "nat \<Rightarrow> bool" where
  "res_ok status \<longleftrightarrow> 200 \<le> status \<and> status \<le> 299"

text \<open>
  An \<open>async\<close> handler runs synchronously up to its first \<open>await\<close>. The outcome of such a
  stretch of code: it returned, it is suspended on a request or a timer, or it threw (for
  an \<open>async\<close> function: its promise rejected, which nothing in the repository handles).
\<close>

datatype await = AwaitFetch request | AwaitTimeout nat

datatype completion = Returned | Awaiting await | Thrown js_exn

section \<open>The password-visibility toggle\<close>

text \<open>
  The click handler of \<open>togglePass\<close> is the same text in the three files. It reads the
  input's \<open>type\<close> and writes the \<open>type\<close> and the button's label:
  \<^verbatim>\<open>const hidden = passEl.type === "password";
passEl.type = hidden ? "text" : "password";
togglePass.textContent = hidden ? <see-no-evil monkey> : <eye>;\<close>
  The monkey is U+1F648 and the eye U+1F441, two code units each.
\<close>

definition monkey_label :: jsstring where
  "monkey_label = [0xD83D, 0xDE48]"

definition eye_label :: jsstring where
  "eye_label = [0xD83D, 0xDC41]"

definition toggle_click :: "jsstring \<times> jsstring \<Rightarrow> jsstring \<times> jsstring" where
  "toggle_click st =
     (let hidden = (fst st = js ''password'')
      in (if hidden then js ''text'' else js ''password'',
          if hidden then monkey_label else eye_label))"

section \<open>The login page\<close>

text \<open>
  The DOM nodes the login script holds, by the script's variable names, on top of the
  window. \<open>formMsg_ok\<close> says whether the class list of \<open>formMsg\<close> contains \<open>ok\<close>.
\<close>

record login_page = window +
  email_value :: jsstring
  password_value :: jsstring
  password_type :: jsstring
  remember_checked :: bool
  emailError_text :: jsstring
  passError_text :: jsstring
  formMsg_text :: jsstring
  formMsg_display :: jsstring
  formMsg_ok :: bool
  btnLogin_disabled :: bool
  btnLogin_text :: jsstring
  togglePass_text :: jsstring

datatype login_error_el = EmailError | PassError

definition login_setLoading :: "bool \<Rightarrow> login_page \<Rightarrow> login_page" where
  "login_setLoading isLoading s =
     s\<lparr>btnLogin_disabled := isLoading,
       btnLogin_text := (if isLoading then js ''Ingresando...'' else js ''Entrar'')\<rparr>"

fun showFieldError :: "login_error_el \<Rightarrow> jsstring \<Rightarrow> login_page \<Rightarrow> login_page" where
  "showFieldError EmailError msg s = s\<lparr>emailError_text := msg\<rparr>"
| "showFieldError PassError msg s = s\<lparr>passError_text := msg\<rparr>"

definition login_clearErrors :: "login_page \<Rightarrow> login_page" where
  "login_clearErrors s =
     s\<lparr>emailError_text := [], passError_text := [], formMsg_display := js ''none'',
       formMsg_text := [], formMsg_ok := False\<rparr>"

definition login_togglePass_click :: "login_page \<Rightarrow> login_page" where
  "login_togglePass_click s =
     (let st = toggle_click (password_type s, togglePass_text s)
      in s\<lparr>password_type := fst st, togglePass_text := snd st\<rparr>)"

definition login_email_msg :: jsstring where
  "login_email_msg = js ''Ingresa un email v'' @ [0xE1] @ js ''lido.''"

definition login_pass_msg :: jsstring where
  "login_pass_msg =
     js ''La contrase'' @ [0xF1] @ js ''a debe tener al menos 6 caracteres.''"

definition login_bad_credentials_msg :: jsstring where
  "login_bad_credentials_msg = js ''Email o contrase'' @ [0xF1] @ js ''a incorrectos.''"

definition login_ok_msg :: jsstring where
  "login_ok_msg = [0xA1] @ js ''Login correcto! Redirigiendo'' @ [0x2026]"

definition login_failed_msg :: jsstring where
  "login_failed_msg = js ''No se pudo iniciar sesi'' @ [0xF3] @ js ''n.''"

text \<open>
  Lines 41 to 58 of both login scripts, which are the same text: clear the messages, read
  the fields, run both checks (each in its own \<open>if\<close>, accumulating in \<open>ok\<close>). The result
  is the page, \<open>ok\<close>, \<open>eVal\<close> and \<open>pVal\<close>.
\<close>

definition login_validate :: "login_page \<Rightarrow> login_page \<times> bool \<times> jsstring \<times> jsstring" where
  "login_validate s0 =
     (let s = login_clearErrors s0;
          eVal = trim (email_value s);
          pVal = password_value s;
          ok = True;
          (s, ok) = (if \<not> isValidEmail eVal
                     then (showFieldError EmailError login_email_msg s, False) else (s, ok));
          (s, ok) = (if pVal = [] \<or> length pVal < 6
                     then (showFieldError PassError login_pass_msg s, False) else (s, ok))
      in (s, ok, eVal, pVal))"

text \<open>The \<open>catch\<close> and \<open>finally\<close> blocks, the same in both login scripts.\<close>

definition login_catch :: "js_exn \<Rightarrow> login_page \<Rightarrow> login_page" where
  "login_catch err s =
     s\<lparr>formMsg_text := (if message err \<noteq> [] then message err else login_failed_msg),
       formMsg_display := js ''block''\<rparr>"

definition login_finally :: "login_page \<Rightarrow> login_page" where
  "login_finally s = login_setLoading False s"

text \<open>Storing the session and announcing the redirect: the tail of both \<open>try\<close> blocks.\<close>

definition login_store :: "host \<Rightarrow> jsvalue \<Rightarrow> login_page \<Rightarrow> login_page" where
  "login_store h session s =
     s\<lparr>localStorage := (localStorage s)(session_key \<mapsto> JSON_stringify h session),
       formMsg_text := login_ok_msg, formMsg_ok := True, formMsg_display := js ''block'',
       timeouts := timeouts s @ [(500, GoDashboard)]\<rparr>"

subsection \<open>The login script that calls the API\<close>

definition login_request :: "host \<Rightarrow> jsstring \<Rightarrow> jsstring \<Rightarrow> request" where
  "login_request h eVal pVal =
     \<lparr>url = js ''http://localhost:3000/auth/login'',
      http_method = js ''POST'',
      headers = [(js ''Content-Type'', js ''application/json'')],
      body = JSON_stringify h (JObj [(js ''email'', JStr eVal), (js ''password'', JStr pVal)])\<rparr>"

definition api_login_submit :: "host \<Rightarrow> login_page \<Rightarrow> login_page \<times> completion" where
  "api_login_submit h s0 =
     (let (s, ok, eVal, pVal) = login_validate s0
      in if \<not> ok then (s, Returned)
         else (login_setLoading True s, Awaiting (AwaitFetch (login_request h eVal pVal))))"

text \<open>
  The \<open>try\<close> block once \<open>fetch\<close> has settled. Everything that can throw (the rejected
  \<open>fetch\<close>, \<open>res.json()\<close>, reading a property of a \<open>null\<close> body, \<open>new Error(x)\<close>
  turning \<open>x\<close> into a string, the \<open>throw\<close>) comes before the first write, so a throw
  leaves the page as it was.
\<close>

definition api_login_try :: "host \<Rightarrow> fetch_result \<Rightarrow> login_page \<Rightarrow> js_exn + login_page" where
  "api_login_try h fr s =
     (case fr of
        FetchRejected e \<Rightarrow> Inl e
      | FetchResponse status b \<Rightarrow>
          (case b of
             BodyError e \<Rightarrow> Inl e
           | BodyJson data \<Rightarrow>
               if \<not> res_ok status then
                 (case get_prop h data (js ''detail'') of
                    Inl e \<Rightarrow> Inl e
                  | Inr detail \<Rightarrow>
                      (if truthy detail then
                         (case ToString h detail of
                            Inl e \<Rightarrow> Inl e
                          | Inr msg \<Rightarrow> Inl (Error msg))
                       else Inl (Error login_bad_credentials_msg)))
               else
                 (case get_prop h data (js ''token'') of
                    Inl e \<Rightarrow> Inl e
                  | Inr token \<Rightarrow>
                      (case get_prop h data (js ''user'') of
                         Inl e \<Rightarrow> Inl e
                       | Inr user \<Rightarrow>
                           Inr (login_store h
                                  (JObj [(js ''token'', token), (js ''user'', user),
                                         (js ''remember'', JBool (remember_checked s))]) s)))))"

definition api_login_settle :: "host \<Rightarrow> fetch_result \<Rightarrow> login_page \<Rightarrow> login_page" where
  "api_login_settle h fr s =
     login_finally (case api_login_try h fr s of Inl err \<Rightarrow> login_catch err s | Inr s' \<Rightarrow> s')"

definition api_login :: "host \<Rightarrow> fetch_result \<Rightarrow> login_page \<Rightarrow> login_page" where
  "api_login h fr s0 =
     (case api_login_submit h s0 of
        (s, Awaiting a) \<Rightarrow> api_login_settle h fr s
      | (s, c) \<Rightarrow> s)"

subsection \<open>The login script with the simulated login\<close>

definition demoEmail :: jsstring where
  "demoEmail = js ''kevin@test.com''"

definition demoPass :: jsstring where
  "demoPass = js ''123456''"

text \<open>The handler up to \<^verbatim>\<open>await new Promise(r => setTimeout(r, 600))\<close>; no request is made.\<close>

definition demo_login_submit :: "login_page \<Rightarrow> login_page \<times> completion \<times> jsstring \<times> jsstring" where
  "demo_login_submit s0 =
     (let (s, ok, eVal, pVal) = login_validate s0
      in if \<not> ok then (s, Returned, eVal, pVal)
         else (login_setLoading True s, Awaiting (AwaitTimeout 600), eVal, pVal))"

definition demo_login_try :: "host \<Rightarrow> jsstring \<Rightarrow> jsstring \<Rightarrow> login_page \<Rightarrow> js_exn + login_page" where
  "demo_login_try h eVal pVal s =
     (if eVal \<noteq> demoEmail \<or> pVal \<noteq> demoPass then Inl (Error login_bad_credentials_msg)
      else Inr (login_store h
                  (JObj [(js ''token'', JStr (js ''demo_token_123'')),
                         (js ''user'', JObj [(js ''name'', JStr (js ''Kevin'')),
                                             (js ''email'', JStr eVal),
                                             (js ''role'', JStr (js ''admin''))]),
                         (js ''remember'', JBool (remember_checked s))]) s))"

definition demo_login_settle :: "host \<Rightarrow> jsstring \<Rightarrow> jsstring \<Rightarrow> login_page \<Rightarrow> login_page" where
  "demo_login_settle h eVal pVal s =
     login_finally (case demo_login_try h eVal pVal s of
                      Inl err \<Rightarrow> login_catch err s | Inr s' \<Rightarrow> s')"

definition demo_login :: "host \<Rightarrow> login_page \<Rightarrow> login_page" where
  "demo_login h s0 =
     (case demo_login_submit s0 of
        (s, Awaiting a, eVal, pVal) \<Rightarrow> demo_login_settle h eVal pVal s
      | (s, c, eVal, pVal) \<Rightarrow> s)"

section \<open>The admin page\<close>

text \<open>
  The script's constant \<open>session\<close>, the DOM nodes it holds (by the script's variable
  names), and the listeners it has registered. The markup is not part of the repository,
  so what \<open>form.reset()\<close> restores (the controls' default values) and the options of the
  role selector are part of the page state. The four controls belong to the form.
\<close>

datatype listener = LogoutClick | TogglePassClick | FormSubmit

record admin_page = window +
  session_var :: jsvalue
  subtitle_text :: jsstring
  listeners :: "listener list"
  nameEl_value :: jsstring
  emailEl_value :: jsstring
  passEl_value :: jsstring
  roleEl_value :: jsstring
  nameEl_default :: jsstring
  emailEl_default :: jsstring
  passEl_default :: jsstring
  roleEl_default :: jsstring
  roleEl_options :: "jsstring list"
  passEl_type :: jsstring
  adminToggle_text :: jsstring
  btn_disabled :: bool
  btn_text :: jsstring
  msg_className :: jsstring
  msg_text :: jsstring
  nameErr_text :: jsstring
  emailErr_text :: jsstring
  passErr_text :: jsstring

definition API_BASE :: jsstring where
  "API_BASE = js ''http://localhost:3000''"

definition goLogin :: "'a window_scheme \<Rightarrow> 'a window_scheme" where
  "goLogin w = set_href login_html (w\<lparr>localStorage := (localStorage w)(session_key := None)\<rparr>)"

definition unauthorized_msg :: jsstring where
  "unauthorized_msg =
     js ''No autorizado. Solo admins pueden acceder a esta p'' @ [0xE1] @ js ''gina.''"

definition subtitle_of :: "host \<Rightarrow> jsvalue \<Rightarrow> js_exn + jsstring" where
  "subtitle_of h user =
     (let name = opt_prop h user (js ''name'') in
      case (if truthy name then ToString h name else Inr (js ''admin'')) of
        Inl e \<Rightarrow> Inl e
      | Inr shown \<Rightarrow>
          (case ToString h (opt_prop h user (js ''role'')) of
             Inl e \<Rightarrow> Inl e
           | Inr role \<Rightarrow>
               Inr (js ''Sesi'' @ [0xF3] @ js ''n: '' @ shown
                      @ js '' '' @ [0xB7] @ js '' rol: '' @ role)))"

text \<open>
  The top level of the admin script, run once when the page loads. Nothing follows
  \<open>goLogin()\<close> on line 12 that would stop the script: line 15 is evaluated next, whatever
  line 12 did.
\<close>

definition admin_load :: "host \<Rightarrow> admin_page \<Rightarrow> admin_page \<times> completion" where
  "admin_load h s0 =
     (case (case localStorage s0 session_key of
              None \<Rightarrow> Inr JNull
            | Some sessionRaw \<Rightarrow> if sessionRaw = [] then Inr JNull else JSON_parse h sessionRaw) of
        Inl e \<Rightarrow> (s0, Thrown e)
      | Inr session \<Rightarrow>
          (let s = s0\<lparr>session_var := session\<rparr> in
           case (if \<not> truthy session then Inr True
                 else case get_prop h session (js ''token'') of
                        Inl e \<Rightarrow> Inl e | Inr token \<Rightarrow> Inr (\<not> truthy token)) of
             Inl e \<Rightarrow> (s, Thrown e)
           | Inr no_token \<Rightarrow>
               (let s = (if no_token then goLogin s else s) in
                case get_prop h session (js ''user'') of
                  Inl e \<Rightarrow> (s, Thrown e)
                | Inr user \<Rightarrow>
                    (let s = (if opt_prop h user (js ''role'') \<noteq> JStr (js ''admin'')
                              then set_href dashboard_html
                                     (s\<lparr>alerts := alerts s @ [unauthorized_msg]\<rparr>)
                              else s) in
                     case subtitle_of h user of
                       Inl e \<Rightarrow> (s, Thrown e)
                     | Inr subtitle \<Rightarrow>
                         (let s = s\<lparr>subtitle_text := subtitle\<rparr>;
                              s = s\<lparr>listeners := listeners s
                                       @ [LogoutClick, TogglePassClick, FormSubmit]\<rparr>
                          in (s, Returned))))))"

definition admin_togglePass_click :: "admin_page \<Rightarrow> admin_page" where
  "admin_togglePass_click s =
     (let st = toggle_click (passEl_type s, adminToggle_text s)
      in s\<lparr>passEl_type := fst st, adminToggle_text := snd st\<rparr>)"

definition admin_clearErrors :: "admin_page \<Rightarrow> admin_page" where
  "admin_clearErrors s =
     s\<lparr>nameErr_text := [], emailErr_text := [], passErr_text := [],
       msg_className := js ''msg'', msg_text := []\<rparr>"

text \<open>
  \<open>showMsg(type, text)\<close>. The \<open>text\<close> may be any value (a server's \<open>detail\<close>). The class
  name is written first; then the \<open>textContent\<close> setter turns the value into a string, a
  nullish one into the empty string, and that conversion can throw.
\<close>

definition showMsg :: "host \<Rightarrow> jsstring \<Rightarrow> jsvalue \<Rightarrow> admin_page \<Rightarrow> admin_page \<times> completion" where
  "showMsg h type text s0 =
     (let s = s0\<lparr>msg_className := js ''msg '' @ (if type = js ''ok'' then js ''ok'' else js ''bad'')\<rparr>
      in case (if nullish text then Inr [] else ToString h text) of
           Inl e \<Rightarrow> (s, Thrown e)
         | Inr str \<Rightarrow> (s\<lparr>msg_text := str\<rparr>, Returned))"

record api_result =
  r_ok :: bool
  r_status :: nat
  r_data :: jsvalue

text \<open>
  \<open>apiFetch(path, options)\<close>: the request it passes to \<open>fetch\<close>, and what it does once
  \<open>fetch\<close> has settled. A rejected \<open>fetch\<close> is not caught; a failing \<open>res.json()\<close> is.
\<close>

definition apiFetch_request :: "jsstring \<Rightarrow> request \<Rightarrow> request" where
  "apiFetch_request path options = options\<lparr>url := API_BASE @ path\<rparr>"

definition apiFetch_settle :: "fetch_result \<Rightarrow> admin_page \<Rightarrow> admin_page \<times> (js_exn + api_result)" where
  "apiFetch_settle fr s =
     (case fr of
        FetchRejected e \<Rightarrow> (s, Inl e)
      | FetchResponse status b \<Rightarrow>
          (let s = (if status = 401 then goLogin s else s) in
           if status = 204 then (s, Inr \<lparr>r_ok = True, r_status = 204, r_data = JNull\<rparr>)
           else (s, Inr \<lparr>r_ok = res_ok status, r_status = status,
                         r_data = (case b of BodyJson data \<Rightarrow> data | BodyError e \<Rightarrow> JNull)\<rparr>)))"

definition authHeaders :: "host \<Rightarrow> admin_page \<Rightarrow> js_exn + (jsstring \<times> jsstring) list" where
  "authHeaders h s =
     (case get_prop h (session_var s) (js ''token'') of
        Inl e \<Rightarrow> Inl e
      | Inr token \<Rightarrow>
          (case ToString h token of
             Inl e \<Rightarrow> Inl e
           | Inr bearer \<Rightarrow>
               Inr [(js ''Content-Type'', js ''application/json''),
                    (js ''Authorization'', js ''Bearer '' @ bearer)]))"

definition admin_setLoading :: "bool \<Rightarrow> admin_page \<Rightarrow> admin_page" where
  "admin_setLoading on s =
     s\<lparr>btn_disabled := on,
       btn_text := (if on then js ''Creando'' @ [0x2026] else js ''Crear usuario'')\<rparr>"

record payload =
  p_name :: jsstring
  p_email :: jsstring
  p_password :: jsstring
  p_role :: jsstring

definition payload_json :: "payload \<Rightarrow> jsvalue" where
  "payload_json p =
     JObj [(js ''name'', JStr (p_name p)), (js ''email'', JStr (p_email p)),
           (js ''password'', JStr (p_password p)), (js ''role'', JStr (p_role p))]"

definition admin_name_msg :: jsstring where
  "admin_name_msg =
     js ''Nombre inv'' @ [0xE1] @ js ''lido (m'' @ [0xED] @ js ''n 2 caracteres).''"

definition admin_email_msg :: jsstring where
  "admin_email_msg = js ''Email inv'' @ [0xE1] @ js ''lido.''"

definition admin_pass_msg :: jsstring where
  "admin_pass_msg =
     js ''Contrase'' @ [0xF1] @ js ''a inv'' @ [0xE1] @ js ''lida (m'' @ [0xED]
       @ js ''n 6 caracteres).''"

text \<open>Lines 87 to 110 of the submit handler: the payload and the three checks.\<close>

definition admin_validate :: "host \<Rightarrow> admin_page \<Rightarrow> admin_page \<times> bool \<times> payload" where
  "admin_validate h s0 =
     (let s = admin_clearErrors s0;
          p = \<lparr>p_name = trim (nameEl_value s),
               p_email = toLowerCase h (trim (emailEl_value s)),
               p_password = passEl_value s,
               p_role = roleEl_value s\<rparr>;
          ok = True;
          (s, ok) = (if p_name p = [] \<or> length (p_name p) < 2
                     then (s\<lparr>nameErr_text := admin_name_msg\<rparr>, False) else (s, ok));
          (s, ok) = (if \<not> isValidEmail (p_email p)
                     then (s\<lparr>emailErr_text := admin_email_msg\<rparr>, False) else (s, ok));
          (s, ok) = (if p_password p = [] \<or> length (p_password p) < 6
                     then (s\<lparr>passErr_text := admin_pass_msg\<rparr>, False) else (s, ok))
      in (s, ok, p))"

text \<open>
  Lines 110 to 118: \<open>setLoading(true)\<close> comes first, then the arguments of \<open>apiFetch\<close>
  are evaluated (\<open>authHeaders()\<close> reads \<open>session.token\<close> into a template), then \<open>fetch\<close>
  is called.
\<close>

definition admin_submit :: "host \<Rightarrow> admin_page \<Rightarrow> admin_page \<times> completion" where
  "admin_submit h s0 =
     (let (s, ok, p) = admin_validate h s0
      in if \<not> ok then (s, Returned)
         else (let s = admin_setLoading True s in
               case authHeaders h s of
                 Inl e \<Rightarrow> (s, Thrown e)
               | Inr hs \<Rightarrow>
                   (s, Awaiting (AwaitFetch
                         (apiFetch_request (js ''/admin/users'')
                            \<lparr>url = [], http_method = js ''POST'', headers = hs,
                             body = JSON_stringify h (payload_json p)\<rparr>)))))"

definition form_reset :: "admin_page \<Rightarrow> admin_page" where
  "form_reset s =
     s\<lparr>nameEl_value := nameEl_default s, emailEl_value := emailEl_default s,
       passEl_value := passEl_default s, roleEl_value := roleEl_default s\<rparr>"

text \<open>
  Assigning to the \<open>value\<close> of a selector selects the option with that value; when there
  is none, nothing is selected and \<open>value\<close> reads as the empty string.
\<close>

definition set_roleEl_value :: "jsstring \<Rightarrow> admin_page \<Rightarrow> admin_page" where
  "set_roleEl_value v s = s\<lparr>roleEl_value := (if v \<in> set (roleEl_options s) then v else [])\<rparr>"

definition created_msg :: "host \<Rightarrow> jsvalue \<Rightarrow> jsvalue \<Rightarrow> js_exn + jsstring" where
  "created_msg h email role =
     (case ToString h email of
        Inl e \<Rightarrow> Inl e
      | Inr email_str \<Rightarrow>
          (case ToString h role of
             Inl e \<Rightarrow> Inl e
           | Inr role_str \<Rightarrow>
               Inr (js ''Usuario creado '' @ [0x2705] @ js '' ('' @ email_str
                      @ js '' '' @ [0xB7] @ js '' rol: '' @ role_str @ js '')'')))"

definition failed_msg :: "nat \<Rightarrow> jsstring" where
  "failed_msg status = js ''No se pudo crear ('' @ show_nat status @ js '')''"

text \<open>
  Lines 114 to 131, from the moment \<open>fetch\<close> settles. There is no \<open>try\<close> around the
  \<open>await\<close>. \<open>if (!r) return;\<close> never returns, since \<open>apiFetch\<close> resolves to an object.
\<close>

definition admin_settle :: "host \<Rightarrow> fetch_result \<Rightarrow> admin_page \<Rightarrow> admin_page \<times> completion" where
  "admin_settle h fr s0 =
     (case apiFetch_settle fr s0 of
        (s, Inl e) \<Rightarrow> (s, Thrown e)
      | (s, Inr r) \<Rightarrow>
          (let s = admin_setLoading False s in
           if \<not> r_ok r then
             (let detail = opt_prop h (r_data r) (js ''detail'')
              in showMsg h (js ''bad'')
                   (if truthy detail then detail else JStr (failed_msg (r_status r))) s)
           else
             (case get_prop h (r_data r) (js ''email'') of
                Inl e \<Rightarrow> (s, Thrown e)
              | Inr email \<Rightarrow>
                  (case get_prop h (r_data r) (js ''role'') of
                     Inl e \<Rightarrow> (s, Thrown e)
                   | Inr role \<Rightarrow>
                       (case created_msg h email role of
                          Inl e \<Rightarrow> (s, Thrown e)
                        | Inr text \<Rightarrow>
                            (case showMsg h (js ''ok'') (JStr text) s of
                               (s, Thrown e) \<Rightarrow> (s, Thrown e)
                             | (s, c) \<Rightarrow>
                                 (set_roleEl_value (js ''user'') (form_reset s), Returned)))))))"

definition admin_create :: "host \<Rightarrow> fetch_result \<Rightarrow> admin_page \<Rightarrow> admin_page \<times> completion" where
  "admin_create h fr s0 =
     (case admin_submit h s0 of
        (s, Awaiting a) \<Rightarrow> admin_settle h fr s
      | (s, c) \<Rightarrow> (s, c))"

section \<open>Example inputs\<close>

text \<open>
  A host, a login page and an admin page on which the theorems below are instantiated.
  The host lower-cases ASCII letters and parses the two stored texts that the examples
  use; its serialiser and its number formatter only need to be some functions.
\<close>

definition host_example :: host where
  "host_example =
     \<lparr>toLowerCase = map (\<lambda>c. if 0x41 \<le> c \<and> c \<le> 0x5A then c + 0x20 else c),
      JSON_stringify = (\<lambda>v. js ''{}''),
      JSON_parse = (\<lambda>t. if t = js ''{}'' then Inr (JObj [])
                         else if t = js ''null'' then Inr JNull
                         else Inl (SyntaxError (js ''Unexpected token''))),
      Number_toString = (\<lambda>q. js ''0''),
      nullish_read_message = (\<lambda>v k. js ''Cannot read properties of null (reading '' @ k @ js '')''),
      to_primitive_message = (\<lambda>v. js ''Cannot convert object to primitive value'')\<rparr>"

definition login_example :: login_page where
  "login_example =
     \<lparr>localStorage = Map.empty, href_writes = [], timeouts = [], alerts = [],
      email_value = js '' kevin@test.com'', password_value = js ''123456'',
      password_type = js ''password'', remember_checked = True,
      emailError_text = [], passError_text = [], formMsg_text = [],
      formMsg_display = js ''none'', formMsg_ok = False,
      btnLogin_disabled = False, btnLogin_text = js ''Entrar'',
      togglePass_text = eye_label\<rparr>"

definition admin_example :: admin_page where
  "admin_example =
     \<lparr>localStorage = [session_key \<mapsto> js ''{}''], href_writes = [], timeouts = [], alerts = [],
      session_var = JObj [(js ''token'', JStr (js ''demo_token_123'')),
                          (js ''user'', JObj [(js ''name'', JStr (js ''Kevin'')),
                                              (js ''role'', JStr (js ''admin''))])],
      subtitle_text = [], listeners = [],
      nameEl_value = js ''Ana'', emailEl_value = js ''Ana@Test.com '',
      passEl_value = js ''secret1'', roleEl_value = js ''admin'',
      nameEl_default = [], emailEl_default = [], passEl_default = [],
      roleEl_default = js ''user'', roleEl_options = [js ''user'', js ''admin''],
      passEl_type = js ''password'', adminToggle_text = eye_label,
      btn_disabled = False, btn_text = js ''Crear usuario'',
      msg_className = js ''msg'', msg_text = [],
      nameErr_text = [], emailErr_text = [], passErr_text = []\<rparr>"

section \<open>Properties of the email check\<close>

text \<open>
  A greedy repetition with backtracking accepts exactly the splits of the input into a
  non-empty run of the class and a rest that the remaining pattern accepts.
\<close>

lemma rx_at_Many:
  "rx_at (Many k # r) b s \<longleftrightarrow> (\<exists>u v. s = u @ v \<and> run k u \<and> rx_at r False v)"
proof (induction s arbitrary: b)
  case Nil
  show ?case by (simp add: run_def)
next
  case (Cons c cs)
  show ?case
  proof
    assume "rx_at (Many k # r) b (c # cs)"
    then have ok: "class_ok k c" and alt: "rx_at (Many k # r) False cs \<or> rx_at r False cs"
      by simp_all
    from alt show "\<exists>u v. c # cs = u @ v \<and> run k u \<and> rx_at r False v"
    proof
      assume "rx_at (Many k # r) False cs"
      then obtain u v where "cs = u @ v" "run k u" "rx_at r False v"
        using Cons.IH by blast
      with ok have "c # cs = (c # u) @ v \<and> run k (c # u) \<and> rx_at r False v"
        by (simp add: run_def)
      then show ?thesis by blast
    next
      assume "rx_at r False cs"
      with ok have "c # cs = [c] @ cs \<and> run k [c] \<and> rx_at r False cs"
        by (simp add: run_def)
      then show ?thesis by blast
    qed
  next
    assume "\<exists>u v. c # cs = u @ v \<and> run k u \<and> rx_at r False v"
    then obtain u v where uv: "c # cs = u @ v" "run k u" "rx_at r False v" by blast
    then obtain u' where u: "u = c # u'" "cs = u' @ v"
      by (cases u) (auto simp: run_def)
    show "rx_at (Many k # r) b (c # cs)"
    proof (cases u')
      case Nil
      with u uv show ?thesis by (simp add: run_def)
    next
      case (Cons a w)
      with u uv have "run k u'" "class_ok k c" by (simp_all add: run_def)
      with u uv have "rx_at (Many k # r) False cs" using Cons.IH by blast
      with \<open>class_ok k c\<close> show ?thesis by simp
    qed
  qed
qed

lemma rx_at_Once:
  "rx_at (Once k # r) b s \<longleftrightarrow> (\<exists>c v. s = c # v \<and> class_ok k c \<and> rx_at r False v)"
  by (cases s) auto

lemma rx_test_Bol_False: "\<not> rx_test (Bol # r) False s"
  by (induction s) auto

lemma rx_test_Bol: "rx_test (Bol # r) True s = rx_at r True s"
  by (cases s) (auto simp: rx_test_Bol_False)

lemma isValidEmail_iff: "isValidEmail s = matches_email_regex s"
  unfolding isValidEmail_def email_rx_def matches_email_regex_def rx_test_Bol
  by (simp add: rx_at_Many rx_at_Once) (metis append_Cons)

lemma run_no_at: "run NotSpaceAt w \<Longrightarrow> 0x40 \<notin> set w"
  by (auto simp: run_def list_all_iff)

lemma isValidEmail_needs_at:
  assumes "0x40 \<notin> set s" shows "\<not> isValidEmail s"
proof
  assume "isValidEmail s"
  then obtain l d t where "s = l @ [0x40] @ d @ [0x2E] @ t"
    unfolding isValidEmail_iff matches_email_regex_def by blast
  with assms show False by simp
qed

lemma isValidEmail_needs_dot:
  assumes "s = u @ [0x40] @ v" and "0x2E \<notin> set v" shows "\<not> isValidEmail s"
proof
  assume "isValidEmail s"
  then obtain l d t where s: "s = l @ [0x40] @ d @ [0x2E] @ t"
    and r: "run NotSpaceAt l" "run NotSpaceAt d" "run NotSpaceAt t"
    unfolding isValidEmail_iff matches_email_regex_def by blast
  have "0x40 \<notin> set l" "0x40 \<notin> set (d @ [0x2E] @ t)"
    using r by (auto dest: run_no_at)
  moreover have "l @ 0x40 # (d @ [0x2E] @ t) = u @ 0x40 # v"
    using s assms(1) by simp
  ultimately have "v = d @ [0x2E] @ t"
    by (simp add: append_Cons_eq_iff)
  with assms(2) show False by simp
qed

lemma isValidEmail_abc: "isValidEmail (js ''a@b.c'')"
  by (simp add: isValidEmail_def email_rx_def js_def isWhiteSpace_def)

text \<open>
  Claim C1. For every string, \<open>isValidEmail\<close> returns true exactly when the string
  matches \<^verbatim>\<open>^[^\s@]+@[^\s@]+\.[^\s@]+$\<close>. In particular it returns false for every string
  without an \<open>@\<close> (code unit 0x40) and for every string in which some \<open>@\<close> has no full
  stop (0x2E) after it, and it returns true for \<open>a@b.c\<close>.
\<close>

theorem isValidEmail_matches_regex:
  "(\<forall>s. isValidEmail s = matches_email_regex s) \<and>
   (\<forall>s. 0x40 \<notin> set s \<longrightarrow> \<not> isValidEmail s) \<and>
   (\<forall>u v. 0x2E \<notin> set v \<longrightarrow> \<not> isValidEmail (u @ [0x40] @ v)) \<and>
   isValidEmail (js ''a@b.c'')"
  using isValidEmail_iff isValidEmail_needs_at isValidEmail_needs_dot isValidEmail_abc
  by blast

theorem isValidEmail_matches_regex_witness:
  "matches_email_regex (js ''a@b.c'') \<and>
   0x40 \<notin> set (js ''kevin.test.com'') \<and> \<not> isValidEmail (js ''kevin.test.com'') \<and>
   0x2E \<notin> set (js ''testcom'') \<and> \<not> isValidEmail (js ''kevin'' @ [0x40] @ js ''testcom'')"
proof -
  have a: "0x40 \<notin> set (js ''kevin.test.com'')" by (simp add: js_def)
  have d: "0x2E \<notin> set (js ''testcom'')" by (simp add: js_def)
  show ?thesis
    using isValidEmail_matches_regex a d by blast
qed

section \<open>Field validation\<close>

text \<open>
  What the validation stretch of each handler computes, in closed form: the three (or two)
  checks are independent of one another.
\<close>

lemma login_validate_page:
  "fst (login_validate s0) =
     (login_clearErrors s0)
       \<lparr>emailError_text := (if isValidEmail (trim (email_value s0)) then [] else login_email_msg),
        passError_text := (if length (password_value s0) < 6 then login_pass_msg else [])\<rparr>"
  by (auto simp: login_validate_def login_clearErrors_def Let_def)

lemma login_validate_ok:
  "fst (snd (login_validate s0)) \<longleftrightarrow>
     isValidEmail (trim (email_value s0)) \<and> 6 \<le> length (password_value s0)"
  by (auto simp: login_validate_def login_clearErrors_def Let_def)

lemma login_validate_vals:
  "snd (snd (login_validate s0)) = (trim (email_value s0), password_value s0)"
  by (auto simp: login_validate_def login_clearErrors_def Let_def)

lemma login_validate_eq:
  "login_validate s0 =
     ((login_clearErrors s0)
        \<lparr>emailError_text := (if isValidEmail (trim (email_value s0)) then [] else login_email_msg),
         passError_text := (if length (password_value s0) < 6 then login_pass_msg else [])\<rparr>,
      isValidEmail (trim (email_value s0)) \<and> 6 \<le> length (password_value s0),
      trim (email_value s0), password_value s0)"
  by (auto simp: login_validate_def login_clearErrors_def Let_def)

lemma admin_validate_eq:
  "admin_validate h s0 =
     ((admin_clearErrors s0)
        \<lparr>nameErr_text := (if length (trim (nameEl_value s0)) < 2 then admin_name_msg else []),
         emailErr_text := (if isValidEmail (toLowerCase h (trim (emailEl_value s0))) then []
                           else admin_email_msg),
         passErr_text := (if length (passEl_value s0) < 6 then admin_pass_msg else [])\<rparr>,
      2 \<le> length (trim (nameEl_value s0)) \<and>
        isValidEmail (toLowerCase h (trim (emailEl_value s0))) \<and> 6 \<le> length (passEl_value s0),
      \<lparr>p_name = trim (nameEl_value s0), p_email = toLowerCase h (trim (emailEl_value s0)),
       p_password = passEl_value s0, p_role = roleEl_value s0\<rparr>)"
  by (auto simp: admin_validate_def admin_clearErrors_def Let_def)

lemma api_login_submit_eq:
  "api_login_submit h s0 =
     (if isValidEmail (trim (email_value s0)) \<and> 6 \<le> length (password_value s0)
      then (login_setLoading True (fst (login_validate s0)),
            Awaiting (AwaitFetch (login_request h (trim (email_value s0)) (password_value s0))))
      else (fst (login_validate s0), Returned))"
  by (simp add: api_login_submit_def login_validate_eq)

lemma demo_login_submit_eq:
  "demo_login_submit s0 =
     (if isValidEmail (trim (email_value s0)) \<and> 6 \<le> length (password_value s0)
      then (login_setLoading True (fst (login_validate s0)), Awaiting (AwaitTimeout 600),
            trim (email_value s0), password_value s0)
      else (fst (login_validate s0), Returned, trim (email_value s0), password_value s0))"
  by (simp add: demo_login_submit_def login_validate_eq)

lemma admin_submit_eq:
  "admin_submit h s0 =
     (if 2 \<le> length (trim (nameEl_value s0)) \<and>
         isValidEmail (toLowerCase h (trim (emailEl_value s0))) \<and> 6 \<le> length (passEl_value s0)
      then (case authHeaders h s0 of
              Inl e \<Rightarrow> (admin_setLoading True (fst (admin_validate h s0)), Thrown e)
            | Inr hs \<Rightarrow>
                (admin_setLoading True (fst (admin_validate h s0)),
                 Awaiting (AwaitFetch
                   \<lparr>url = API_BASE @ js ''/admin/users'', http_method = js ''POST'', headers = hs,
                    body = JSON_stringify h
                      (payload_json
                         \<lparr>p_name = trim (nameEl_value s0),
                          p_email = toLowerCase h (trim (emailEl_value s0)),
                          p_password = passEl_value s0, p_role = roleEl_value s0\<rparr>)\<rparr>)))
      else (fst (admin_validate h s0), Returned))"
  by (simp add: admin_submit_def admin_validate_eq authHeaders_def admin_setLoading_def
      admin_clearErrors_def apiFetch_request_def Let_def split: sum.splits)

text \<open>
  Claim C6. On every submission of the login form (either login script) and of the
  create-user form, a password of fewer than 6 code units, the empty one included, sets
  the password-length message and makes the handler return before it starts any request
  or timer: the whole submission ends in the page as validation left it, whatever the
  network would have answered.
\<close>

theorem short_password_blocks_submission:
  "(length (password_value s) < 6 \<longrightarrow>
      passError_text (fst (api_login_submit h s)) = login_pass_msg \<and>
      snd (api_login_submit h s) = Returned \<and>
      api_login h fr s = fst (api_login_submit h s) \<and>
      passError_text (fst (demo_login_submit s)) = login_pass_msg \<and>
      fst (snd (demo_login_submit s)) = Returned \<and>
      demo_login h s = fst (demo_login_submit s)) \<and>
   (length (passEl_value a) < 6 \<longrightarrow>
      passErr_text (fst (admin_submit h a)) = admin_pass_msg \<and>
      snd (admin_submit h a) = Returned \<and>
      admin_create h fr a = admin_submit h a)"
  by (simp add: api_login_submit_eq demo_login_submit_eq admin_submit_eq api_login_def
      demo_login_def admin_create_def login_validate_eq admin_validate_eq)

theorem short_password_blocks_submission_witness:
  "length (password_value (login_example\<lparr>password_value := js ''12345''\<rparr>)) < 6 \<and>
   passError_text (fst (api_login_submit host_example
      (login_example\<lparr>password_value := js ''12345''\<rparr>))) = login_pass_msg \<and>
   snd (api_login_submit host_example (login_example\<lparr>password_value := js ''12345''\<rparr>)) = Returned \<and>
   passError_text (fst (demo_login_submit
      (login_example\<lparr>password_value := js ''12345''\<rparr>))) = login_pass_msg \<and>
   fst (snd (demo_login_submit (login_example\<lparr>password_value := js ''12345''\<rparr>))) = Returned \<and>
   length (passEl_value (admin_example\<lparr>passEl_value := []\<rparr>)) < 6 \<and>
   passErr_text (fst (admin_submit host_example (admin_example\<lparr>passEl_value := []\<rparr>)))
     = admin_pass_msg \<and>
   snd (admin_submit host_example (admin_example\<lparr>passEl_value := []\<rparr>)) = Returned"
proof -
  have l: "length (password_value (login_example\<lparr>password_value := js ''12345''\<rparr>)) < 6"
    by (simp add: js_def)
  have a: "length (passEl_value (admin_example\<lparr>passEl_value := []\<rparr>)) < 6"
    by simp
  show ?thesis
    using short_password_blocks_submission
      [of "login_example\<lparr>password_value := js ''12345''\<rparr>" host_example _
          "admin_example\<lparr>passEl_value := []\<rparr>"] l a
    by blast
qed

text \<open>
  Claim C9. Every check runs on every submission, none short-circuits another: after the
  validation of either login script the email message is set exactly when the email is
  invalid and the password message exactly when the password is too short, and likewise
  for the three fields of the create-user form; the handler returns before any request
  exactly when at least one check failed. So several invalid fields show all their
  messages at once.
\<close>

theorem all_field_checks_run:
  "emailError_text (fst (api_login_submit h s)) =
     (if isValidEmail (trim (email_value s)) then [] else login_email_msg) \<and>
   passError_text (fst (api_login_submit h s)) =
     (if length (password_value s) < 6 then login_pass_msg else []) \<and>
   (snd (api_login_submit h s) = Returned \<longleftrightarrow>
      \<not> isValidEmail (trim (email_value s)) \<or> length (password_value s) < 6) \<and>
   emailError_text (fst (demo_login_submit s)) =
     (if isValidEmail (trim (email_value s)) then [] else login_email_msg) \<and>
   passError_text (fst (demo_login_submit s)) =
     (if length (password_value s) < 6 then login_pass_msg else []) \<and>
   (fst (snd (demo_login_submit s)) = Returned \<longleftrightarrow>
      \<not> isValidEmail (trim (email_value s)) \<or> length (password_value s) < 6) \<and>
   nameErr_text (fst (admin_submit h a)) =
     (if length (trim (nameEl_value a)) < 2 then admin_name_msg else []) \<and>
   emailErr_text (fst (admin_submit h a)) =
     (if isValidEmail (toLowerCase h (trim (emailEl_value a))) then [] else admin_email_msg) \<and>
   passErr_text (fst (admin_submit h a)) =
     (if length (passEl_value a) < 6 then admin_pass_msg else []) \<and>
   (snd (admin_submit h a) = Returned \<longleftrightarrow>
      length (trim (nameEl_value a)) < 2 \<or>
      \<not> isValidEmail (toLowerCase h (trim (emailEl_value a))) \<or> length (passEl_value a) < 6)"
  by (auto simp: api_login_submit_eq demo_login_submit_eq admin_submit_eq login_validate_eq
      admin_validate_eq login_setLoading_def admin_setLoading_def authHeaders_def
      split: sum.splits)

theorem all_field_checks_run_witness:
  "\<not> isValidEmail (trim (email_value (login_example\<lparr>email_value := js ''kevin'', password_value := js ''123''\<rparr>))) \<and>
   length (password_value (login_example\<lparr>email_value := js ''kevin'', password_value := js ''123''\<rparr>)) < 6 \<and>
   emailError_text (fst (api_login_submit host_example
      (login_example\<lparr>email_value := js ''kevin'', password_value := js ''123''\<rparr>))) = login_email_msg \<and>
   passError_text (fst (api_login_submit host_example
      (login_example\<lparr>email_value := js ''kevin'', password_value := js ''123''\<rparr>))) = login_pass_msg \<and>
   snd (api_login_submit host_example
      (login_example\<lparr>email_value := js ''kevin'', password_value := js ''123''\<rparr>)) = Returned \<and>
   nameErr_text (fst (admin_submit host_example
      (admin_example\<lparr>nameEl_value := js '' A '', emailEl_value := js ''a@b'', passEl_value := js ''abc''\<rparr>)))
     = admin_name_msg \<and>
   emailErr_text (fst (admin_submit host_example
      (admin_example\<lparr>nameEl_value := js '' A '', emailEl_value := js ''a@b'', passEl_value := js ''abc''\<rparr>)))
     = admin_email_msg \<and>
   passErr_text (fst (admin_submit host_example
      (admin_example\<lparr>nameEl_value := js '' A '', emailEl_value := js ''a@b'', passEl_value := js ''abc''\<rparr>)))
     = admin_pass_msg \<and>
   snd (admin_submit host_example
      (admin_example\<lparr>nameEl_value := js '' A '', emailEl_value := js ''a@b'', passEl_value := js ''abc''\<rparr>))
     = Returned"
proof -
  let ?s = "login_example\<lparr>email_value := js ''kevin'', password_value := js ''123''\<rparr>"
  let ?a = "admin_example\<lparr>nameEl_value := js '' A '', emailEl_value := js ''a@b'', passEl_value := js ''abc''\<rparr>"
  have e: "\<not> isValidEmail (trim (email_value ?s))"
    by (simp add: trim_def js_def isWhiteSpace_def isValidEmail_def email_rx_def)
  have p: "length (password_value ?s) < 6"
    by (simp add: js_def)
  have n: "length (trim (nameEl_value ?a)) < 2"
    by (simp add: trim_def js_def isWhiteSpace_def)
  have ae: "\<not> isValidEmail (toLowerCase host_example (trim (emailEl_value ?a)))"
    by (simp add: trim_def js_def isWhiteSpace_def isValidEmail_def email_rx_def host_example_def)
  have ap: "length (passEl_value ?a) < 6"
    by (simp add: js_def)
  show ?thesis
    using all_field_checks_run [of host_example ?s ?a] e p n ae ap
    by simp
qed

section \<open>The busy state of the submit button\<close>

lemma login_busy_always_cleared:
  "btnLogin_disabled (api_login_settle h fr s) = False \<and>
   btnLogin_text (api_login_settle h fr s) = js ''Entrar'' \<and>
   btnLogin_disabled (demo_login_settle h eVal pVal s) = False \<and>
   btnLogin_text (demo_login_settle h eVal pVal s) = js ''Entrar''"
  by (simp add: api_login_settle_def demo_login_settle_def login_finally_def login_setLoading_def)

lemma busy_set_when_suspended:
  "(snd (api_login_submit h s) = Awaiting a \<longrightarrow>
      btnLogin_disabled (fst (api_login_submit h s)) \<and>
      btnLogin_text (fst (api_login_submit h s)) = js ''Ingresando...'') \<and>
   (fst (snd (demo_login_submit s)) = Awaiting a \<longrightarrow>
      btnLogin_disabled (fst (demo_login_submit s)) \<and>
      btnLogin_text (fst (demo_login_submit s)) = js ''Ingresando...'') \<and>
   (snd (admin_submit h t) = Awaiting a \<longrightarrow>
      btn_disabled (fst (admin_submit h t)) \<and>
      btn_text (fst (admin_submit h t)) = js ''Creando'' @ [0x2026])"
  by (auto simp: api_login_submit_eq demo_login_submit_eq admin_submit_eq login_setLoading_def
      admin_setLoading_def split: if_splits sum.splits)

lemma admin_busy_cleared_on_response:
  "btn_disabled (fst (admin_settle h (FetchResponse status b) s)) = False \<and>
   btn_text (fst (admin_settle h (FetchResponse status b) s)) = js ''Crear usuario''"
  by (simp add: admin_settle_def apiFetch_settle_def admin_setLoading_def showMsg_def
      form_reset_def set_roleEl_value_def goLogin_def set_href_def Let_def
      split: sum.splits)

lemma admin_example_valid:
  "2 \<le> length (trim (nameEl_value admin_example)) \<and>
   isValidEmail (toLowerCase host_example (trim (emailEl_value admin_example))) \<and>
   6 \<le> length (passEl_value admin_example)"
  by code_simp

lemma admin_example_submit:
  "snd (admin_submit host_example admin_example) =
     Awaiting (AwaitFetch
       \<lparr>url = js ''http://localhost:3000/admin/users'', http_method = js ''POST'',
        headers = [(js ''Content-Type'', js ''application/json''),
                   (js ''Authorization'', js ''Bearer demo_token_123'')],
        body = js ''{}''\<rparr>)"
  using admin_example_valid
  by (simp add: admin_submit_eq authHeaders_def)
     (simp add: admin_example_def host_example_def API_BASE_def js_def)

text \<open>
  Claim C2 asks that the busy state, set before the request starts, is cleared after the
  request settles on every path. The login scripts clear it in a \<open>finally\<close> block
  (\<open>login_busy_always_cleared\<close>), and the create-user handler clears it whenever
  \<open>fetch\<close> resolves (\<open>admin_busy_cleared_on_response\<close>). But the create-user handler
  awaits \<open>apiFetch\<close> outside any \<open>try\<close>: when \<open>fetch\<close> rejects, the handler's promise
  rejects with the same error, \<open>setLoading(false)\<close> is never reached, and the page stays
  as the submission left it, the button disabled and labelled as busy.
\<close>

theorem rejected_fetch_leaves_admin_busy:
  "snd (admin_submit h s) = Awaiting a \<Longrightarrow>
     fst (admin_create h (FetchRejected e) s) = fst (admin_submit h s) \<and>
     snd (admin_create h (FetchRejected e) s) = Thrown e \<and>
     btn_disabled (fst (admin_create h (FetchRejected e) s)) \<and>
     btn_text (fst (admin_create h (FetchRejected e) s)) = js ''Creando'' @ [0x2026]"
  by (auto simp: admin_create_def admin_submit_eq admin_settle_def apiFetch_settle_def
      admin_setLoading_def split: if_splits sum.splits)

theorem rejected_fetch_leaves_admin_busy_witness:
  "snd (admin_submit host_example admin_example) =
     Awaiting (AwaitFetch
       \<lparr>url = js ''http://localhost:3000/admin/users'', http_method = js ''POST'',
        headers = [(js ''Content-Type'', js ''application/json''),
                   (js ''Authorization'', js ''Bearer demo_token_123'')],
        body = js ''{}''\<rparr>) \<and>
   snd (admin_create host_example (FetchRejected (TypeError (js ''Failed to fetch''))) admin_example)
     = Thrown (TypeError (js ''Failed to fetch'')) \<and>
   btn_disabled (fst (admin_create host_example
      (FetchRejected (TypeError (js ''Failed to fetch''))) admin_example)) \<and>
   btn_text (fst (admin_create host_example
      (FetchRejected (TypeError (js ''Failed to fetch''))) admin_example)) = js ''Creando'' @ [0x2026]"
  using rejected_fetch_leaves_admin_busy [OF admin_example_submit,
      of "TypeError (js ''Failed to fetch'')"] admin_example_submit
  by blast

section \<open>An unauthorized response\<close>

lemma apiFetch_settle_401:
  "apiFetch_settle (FetchResponse 401 b) s =
     (goLogin s, Inr \<lparr>r_ok = False, r_status = 401,
                      r_data = (case b of BodyJson data \<Rightarrow> data | BodyError e \<Rightarrow> JNull)\<rparr>)"
  by (simp add: apiFetch_settle_def res_ok_def)

lemma admin_settle_window:
  "localStorage (fst (admin_settle h fr s)) = localStorage (fst (apiFetch_settle fr s)) \<and>
   href_writes (fst (admin_settle h fr s)) = href_writes (fst (apiFetch_settle fr s))"
  by (simp add: admin_settle_def admin_setLoading_def showMsg_def form_reset_def
      set_roleEl_value_def Let_def split: prod.splits sum.splits)

text \<open>
  Claim C3. When the response to a call made through \<open>apiFetch\<close> has status 401, the
  entry \<open>session\<close> is removed from local storage and the login page is the navigation
  written to \<open>window.location.href\<close>; the rest of the create-user handler writes neither
  the storage nor the location, so both hold when the handler has finished.
\<close>

theorem unauthorized_response_logs_out:
  "localStorage (fst (apiFetch_settle (FetchResponse 401 b) s)) session_key = None \<and>
   href_writes (fst (apiFetch_settle (FetchResponse 401 b) s)) = href_writes s @ [login_html] \<and>
   localStorage (fst (admin_settle h (FetchResponse 401 b) s)) session_key = None \<and>
   href_writes (fst (admin_settle h (FetchResponse 401 b) s)) = href_writes s @ [login_html]"
  by (simp add: admin_settle_window apiFetch_settle_401 goLogin_def set_href_def)


section \<open>The outcome of a login\<close>

lemma demo_credentials_valid:
  "isValidEmail demoEmail \<and> 6 \<le> length demoPass"
  by code_simp

lemma login_messages_nonempty:
  "login_email_msg \<noteq> []" "login_pass_msg \<noteq> []" "login_bad_credentials_msg \<noteq> []"
  "login_failed_msg \<noteq> []" "login_ok_msg \<noteq> []"
  by (simp_all add: login_email_msg_def login_pass_msg_def login_bad_credentials_msg_def
      login_failed_msg_def login_ok_msg_def js_def)

lemma login_catch_fields:
  "localStorage (login_finally (login_catch err s)) = localStorage s"
  "timeouts (login_finally (login_catch err s)) = timeouts s"
  "formMsg_text (login_finally (login_catch err s)) =
     (if message err \<noteq> [] then message err else login_failed_msg)"
  "formMsg_display (login_finally (login_catch err s)) = js ''block''"
  "formMsg_ok (login_finally (login_catch err s)) = formMsg_ok s"
  "href_writes (login_finally (login_catch err s)) = href_writes s"
  by (simp_all add: login_finally_def login_catch_def login_setLoading_def)

lemma login_store_fields:
  "localStorage (login_finally (login_store h v s)) =
     (localStorage s)(session_key \<mapsto> JSON_stringify h v)"
  "timeouts (login_finally (login_store h v s)) = timeouts s @ [(500, GoDashboard)]"
  "formMsg_text (login_finally (login_store h v s)) = login_ok_msg"
  "formMsg_display (login_finally (login_store h v s)) = js ''block''"
  "formMsg_ok (login_finally (login_store h v s))"
  "href_writes (login_finally (login_store h v s)) = href_writes s"
  by (simp_all add: login_finally_def login_store_def login_setLoading_def)

text \<open>What the scheduled callback does when its timer expires.\<close>

lemma run_callback_GoDashboard:
  "href_writes (run_callback GoDashboard w) = href_writes w @ [dashboard_html]"
  by (simp add: set_href_def)

lemma get_prop_not_nullish: "\<not> nullish v \<Longrightarrow> get_prop h v k = Inr (opt_prop h v k)"
  by (cases v) (simp_all add: opt_prop_def)

lemma api_login_try_accepted:
  "res_ok status \<Longrightarrow> \<not> nullish data \<Longrightarrow>
     api_login_try h (FetchResponse status (BodyJson data)) s =
       Inr (login_store h
              (JObj [(js ''token'', opt_prop h data (js ''token'')),
                     (js ''user'', opt_prop h data (js ''user'')),
                     (js ''remember'', JBool (remember_checked s))]) s)"
  by (simp add: api_login_try_def get_prop_not_nullish)

lemma api_login_try_refused:
  "\<not> res_ok status \<Longrightarrow> \<exists>err. api_login_try h (FetchResponse status b) s = Inl err"
  by (auto simp: api_login_try_def split: body_result.splits sum.splits)

lemma login_validate_window:
  "localStorage (fst (login_validate s)) = localStorage s"
  "timeouts (fst (login_validate s)) = timeouts s"
  "remember_checked (fst (login_validate s)) = remember_checked s"
  "formMsg_ok (fst (login_validate s)) = False"
  "href_writes (fst (login_validate s)) = href_writes s"
  by (simp_all add: login_validate_eq login_clearErrors_def)

lemma login_setLoading_fields:
  "localStorage (login_setLoading b s) = localStorage s"
  "timeouts (login_setLoading b s) = timeouts s"
  "remember_checked (login_setLoading b s) = remember_checked s"
  "formMsg_ok (login_setLoading b s) = formMsg_ok s"
  "emailError_text (login_setLoading b s) = emailError_text s"
  "passError_text (login_setLoading b s) = passError_text s"
  "href_writes (login_setLoading b s) = href_writes s"
  by (simp_all add: login_setLoading_def)

lemma demo_login_accepted:
  assumes "trim (email_value s) = demoEmail" and "password_value s = demoPass"
  shows "localStorage (demo_login h s) =
           (localStorage s)(session_key \<mapsto> JSON_stringify h
              (JObj [(js ''token'', JStr (js ''demo_token_123'')),
                     (js ''user'', JObj [(js ''name'', JStr (js ''Kevin'')),
                                         (js ''email'', JStr demoEmail),
                                         (js ''role'', JStr (js ''admin''))]),
                     (js ''remember'', JBool (remember_checked s))]))"
    and "timeouts (demo_login h s) = timeouts s @ [(500, GoDashboard)]"
    and "href_writes (run_callback (snd (last (timeouts (demo_login h s)))) (demo_login h s)) =
           href_writes s @ [dashboard_html]"
  using assms demo_credentials_valid
  by (simp_all add: demo_login_def demo_login_submit_eq demo_login_settle_def demo_login_try_def
      login_store_fields login_setLoading_fields login_validate_window set_href_def)

lemma demo_login_refused:
  assumes "trim (email_value s) \<noteq> demoEmail \<or> password_value s \<noteq> demoPass"
  shows "localStorage (demo_login h s) = localStorage s"
    and "timeouts (demo_login h s) = timeouts s"
    and "emailError_text (demo_login h s) \<noteq> [] \<or> passError_text (demo_login h s) \<noteq> [] \<or>
         (formMsg_text (demo_login h s) = login_bad_credentials_msg \<and>
          formMsg_display (demo_login h s) = js ''block'')"
  using assms login_messages_nonempty
  by (auto simp: demo_login_def demo_login_submit_eq demo_login_settle_def demo_login_try_def
      login_catch_fields login_setLoading_fields login_validate_eq login_clearErrors_def)

lemma api_login_accepted:
  assumes "isValidEmail (trim (email_value s))" and "6 \<le> length (password_value s)"
    and "res_ok status" and "\<not> nullish data"
  shows "localStorage (api_login h (FetchResponse status (BodyJson data)) s) =
           (localStorage s)(session_key \<mapsto> JSON_stringify h
              (JObj [(js ''token'', opt_prop h data (js ''token'')),
                     (js ''user'', opt_prop h data (js ''user'')),
                     (js ''remember'', JBool (remember_checked s))]))"
    and "timeouts (api_login h (FetchResponse status (BodyJson data)) s) =
           timeouts s @ [(500, GoDashboard)]"
    and "href_writes
           (run_callback
              (snd (last (timeouts (api_login h (FetchResponse status (BodyJson data)) s))))
              (api_login h (FetchResponse status (BodyJson data)) s)) =
           href_writes s @ [dashboard_html]"
  using assms
  by (simp_all add: api_login_def api_login_submit_eq api_login_settle_def api_login_try_accepted
      login_store_fields login_setLoading_fields login_validate_window set_href_def)

lemma api_login_refused:
  assumes "isValidEmail (trim (email_value s))" and "6 \<le> length (password_value s)"
    and "\<not> res_ok status"
  shows "localStorage (api_login h (FetchResponse status b) s) = localStorage s"
    and "timeouts (api_login h (FetchResponse status b) s) = timeouts s"
    and "formMsg_text (api_login h (FetchResponse status b) s) \<noteq> []"
    and "formMsg_display (api_login h (FetchResponse status b) s) = js ''block''"
    and "\<not> formMsg_ok (api_login h (FetchResponse status b) s)"
proof -
  let ?s1 = "login_setLoading True (fst (login_validate s))"
  obtain err where err: "api_login_try h (FetchResponse status b) ?s1 = Inl err"
    using api_login_try_refused [OF assms(3)] by blast
  have run: "api_login h (FetchResponse status b) s = login_finally (login_catch err ?s1)"
    using assms(1,2) err by (simp add: api_login_def api_login_submit_eq api_login_settle_def)
  show "localStorage (api_login h (FetchResponse status b) s) = localStorage s"
    and "timeouts (api_login h (FetchResponse status b) s) = timeouts s"
    and "formMsg_text (api_login h (FetchResponse status b) s) \<noteq> []"
    and "formMsg_display (api_login h (FetchResponse status b) s) = js ''block''"
    and "\<not> formMsg_ok (api_login h (FetchResponse status b) s)"
    unfolding run
    by (simp_all add: login_catch_fields login_setLoading_fields login_validate_window
        login_messages_nonempty)
qed

lemma login_example_fields:
  "trim (email_value login_example) = demoEmail"
  "password_value login_example = demoPass"
  "localStorage login_example = Map.empty"
  "timeouts login_example = []"
  by (simp_all add: login_example_def demoEmail_def demoPass_def trim_def js_def isWhiteSpace_def)

lemma login_example_valid:
  "isValidEmail (trim (email_value login_example))" "6 \<le> length (password_value login_example)"
  using demo_credentials_valid by (simp_all add: login_example_fields)

lemma res_ok_examples: "res_ok 200" "\<not> res_ok 401" "\<not> res_ok 502"
  by (simp_all add: res_ok_def)

text \<open>
  Claim C4. The simulated login accepts exactly the built-in pair of email (after
  trimming) and password; the login against the API accepts when the response has a
  status from 200 to 299 and a JSON body other than \<open>null\<close>, the \<open>{token, user}\<close> of the
  interface. On acceptance the serialised session \<open>{token, user, remember}\<close> is stored
  under \<open>session\<close> and a callback is scheduled after 500 ms which, when run, writes
  \<open>./dashboard.html\<close> to the location: the redirect to the dashboard. When
  the credentials are refused (a pair other than the built-in one; a status outside 200
  to 299), local storage is unchanged, no redirect is scheduled and an error message is
  on the page.
\<close>

theorem login_stores_session_iff_accepted:
  "(trim (email_value s) = demoEmail \<and> password_value s = demoPass \<longrightarrow>
      localStorage (demo_login h s) =
        (localStorage s)(session_key \<mapsto> JSON_stringify h
           (JObj [(js ''token'', JStr (js ''demo_token_123'')),
                  (js ''user'', JObj [(js ''name'', JStr (js ''Kevin'')),
                                      (js ''email'', JStr demoEmail),
                                      (js ''role'', JStr (js ''admin''))]),
                  (js ''remember'', JBool (remember_checked s))])) \<and>
      timeouts (demo_login h s) = timeouts s @ [(500, GoDashboard)] \<and>
      href_writes (run_callback (snd (last (timeouts (demo_login h s)))) (demo_login h s)) =
        href_writes s @ [dashboard_html]) \<and>
   (trim (email_value s) \<noteq> demoEmail \<or> password_value s \<noteq> demoPass \<longrightarrow>
      localStorage (demo_login h s) = localStorage s \<and>
      timeouts (demo_login h s) = timeouts s \<and>
      (emailError_text (demo_login h s) \<noteq> [] \<or> passError_text (demo_login h s) \<noteq> [] \<or>
       (formMsg_text (demo_login h s) = login_bad_credentials_msg \<and>
        formMsg_display (demo_login h s) = js ''block''))) \<and>
   (isValidEmail (trim (email_value s)) \<and> 6 \<le> length (password_value s) \<and>
    res_ok status \<and> \<not> nullish data \<longrightarrow>
      localStorage (api_login h (FetchResponse status (BodyJson data)) s) =
        (localStorage s)(session_key \<mapsto> JSON_stringify h
           (JObj [(js ''token'', opt_prop h data (js ''token'')),
                  (js ''user'', opt_prop h data (js ''user'')),
                  (js ''remember'', JBool (remember_checked s))])) \<and>
      timeouts (api_login h (FetchResponse status (BodyJson data)) s) =
        timeouts s @ [(500, GoDashboard)] \<and>
      href_writes
        (run_callback
           (snd (last (timeouts (api_login h (FetchResponse status (BodyJson data)) s))))
           (api_login h (FetchResponse status (BodyJson data)) s)) =
        href_writes s @ [dashboard_html]) \<and>
   (isValidEmail (trim (email_value s)) \<and> 6 \<le> length (password_value s) \<and>
    \<not> res_ok status \<longrightarrow>
      localStorage (api_login h (FetchResponse status b) s) = localStorage s \<and>
      timeouts (api_login h (FetchResponse status b) s) = timeouts s \<and>
      formMsg_text (api_login h (FetchResponse status b) s) \<noteq> [] \<and>
      formMsg_display (api_login h (FetchResponse status b) s) = js ''block'' \<and>
      \<not> formMsg_ok (api_login h (FetchResponse status b) s))"
  by (intro conjI impI; (elim conjE)?;
      (rule demo_login_accepted demo_login_refused api_login_accepted api_login_refused;
       assumption))

theorem login_stores_session_iff_accepted_witness:
  "trim (email_value login_example) = demoEmail \<and>
   password_value login_example = demoPass \<and>
   localStorage (demo_login host_example login_example) session_key = Some (js ''{}'') \<and>
   timeouts (demo_login host_example login_example) = [(500, GoDashboard)] \<and>
   href_writes (run_callback (snd (last (timeouts (demo_login host_example login_example))))
      (demo_login host_example login_example)) = [js ''./dashboard.html''] \<and>
   password_value (login_example\<lparr>password_value := js ''654321''\<rparr>) \<noteq> demoPass \<and>
   localStorage (demo_login host_example (login_example\<lparr>password_value := js ''654321''\<rparr>))
     session_key = None \<and>
   timeouts (demo_login host_example (login_example\<lparr>password_value := js ''654321''\<rparr>)) = [] \<and>
   isValidEmail (trim (email_value login_example)) \<and>
   6 \<le> length (password_value login_example) \<and>
   res_ok 200 \<and>
   localStorage (api_login host_example
      (FetchResponse 200 (BodyJson (JObj [(js ''token'', JStr (js ''t1'')), (js ''user'', JObj [])])))
      login_example) session_key = Some (js ''{}'') \<and>
   timeouts (api_login host_example
      (FetchResponse 200 (BodyJson (JObj [(js ''token'', JStr (js ''t1'')), (js ''user'', JObj [])])))
      login_example) = [(500, GoDashboard)] \<and>
   \<not> res_ok 401 \<and>
   localStorage (api_login host_example (FetchResponse 401 (BodyJson (JObj []))) login_example)
     session_key = None \<and>
   formMsg_display (api_login host_example (FetchResponse 401 (BodyJson (JObj []))) login_example)
     = js ''block''"
proof -
  let ?bad = "login_example\<lparr>password_value := js ''654321''\<rparr>"
  let ?data = "JObj [(js ''token'', JStr (js ''t1'')), (js ''user'', JObj [])]"
  have bad: "password_value ?bad \<noteq> demoPass"
    by (simp add: demoPass_def js_def)
  have badw: "localStorage ?bad = Map.empty" "timeouts ?bad = []"
    by (simp_all add: login_example_def)
  have nn: "\<not> nullish ?data" by simp
  have str: "JSON_stringify host_example v = js ''{}''" for v
    by (simp add: host_example_def)
  have hw: "href_writes login_example = []"
    by (simp add: login_example_def)
  have d1: "localStorage (demo_login host_example login_example) session_key = Some (js ''{}'')"
    and d2: "timeouts (demo_login host_example login_example) = [(500, GoDashboard)]"
    using login_stores_session_iff_accepted [of login_example host_example]
      login_example_fields
    by (simp_all add: str)
  have "href_writes (run_callback (snd (last (timeouts (demo_login host_example login_example))))
      (demo_login host_example login_example)) = href_writes login_example @ [dashboard_html]"
    using login_stores_session_iff_accepted [of login_example host_example]
      login_example_fields(1,2)
    by blast
  then have d3: "href_writes
      (run_callback (snd (last (timeouts (demo_login host_example login_example))))
      (demo_login host_example login_example)) = [js ''./dashboard.html'']"
    by (simp only: hw dashboard_html_def append_Nil)
  have b1: "localStorage (demo_login host_example ?bad) session_key = None"
    and b2: "timeouts (demo_login host_example ?bad) = []"
    using login_stores_session_iff_accepted [of ?bad host_example] bad badw
    by simp_all
  have a1: "localStorage (api_login host_example (FetchResponse 200 (BodyJson ?data)) login_example)
              session_key = Some (js ''{}'')"
    and a2: "timeouts (api_login host_example (FetchResponse 200 (BodyJson ?data)) login_example)
              = [(500, GoDashboard)]"
    using login_stores_session_iff_accepted [of login_example host_example 200 ?data]
      login_example_valid res_ok_examples nn login_example_fields
    by (simp_all add: str)
  have r1: "localStorage (api_login host_example (FetchResponse 401 (BodyJson (JObj []))) login_example)
              session_key = None"
    and r2: "formMsg_display (api_login host_example (FetchResponse 401 (BodyJson (JObj []))) login_example)
              = js ''block''"
    using login_stores_session_iff_accepted [of login_example host_example 401 _ "BodyJson (JObj [])"]
      login_example_valid res_ok_examples login_example_fields
    by simp_all
  show ?thesis
    using login_example_fields(1,2) bad d1 d2 d3 b1 b2 login_example_valid
      res_ok_examples(1,2) a1 a2 r1 r2
    by blast
qed

section \<open>The login request and the report of a refusal\<close>

lemma login_finally_msg:
  "formMsg_text (login_finally s) = formMsg_text s"
  "formMsg_display (login_finally s) = formMsg_display s"
  by (simp_all add: login_finally_def login_setLoading_def)

lemma api_login_settle_refused:
  assumes "\<not> res_ok status" and "\<not> nullish data"
  shows "\<not> truthy (opt_prop h data (js ''detail'')) \<Longrightarrow>
           formMsg_text (api_login_settle h (FetchResponse status (BodyJson data)) t) =
             login_bad_credentials_msg"
    and "truthy (opt_prop h data (js ''detail'')) \<Longrightarrow>
         ToString h (opt_prop h data (js ''detail'')) = Inr str \<Longrightarrow>
           formMsg_text (api_login_settle h (FetchResponse status (BodyJson data)) t) =
             (if str \<noteq> [] then str else login_failed_msg)"
    and "formMsg_display (api_login_settle h (FetchResponse status (BodyJson data)) t) = js ''block''"
  using assms
  by (simp_all add: api_login_settle_def api_login_try_def get_prop_not_nullish login_finally_msg
      login_catch_def login_bad_credentials_msg_def js_def split: sum.splits)

text \<open>
  When \<open>res.json()\<close> rejects, the \<open>catch\<close> block of the login script shows the message of
  that error. (\<open>apiFetch\<close> on the admin page catches the same failure and goes on with
  \<open>data = null\<close>.)
\<close>

lemma api_login_settle_body_error:
  "formMsg_text (api_login_settle h (FetchResponse status (BodyError e)) t) =
     (if message e \<noteq> [] then message e else login_failed_msg)"
  "formMsg_display (api_login_settle h (FetchResponse status (BodyError e)) t) = js ''block''"
  by (simp_all add: api_login_settle_def api_login_try_def login_finally_msg login_catch_def)

lemma api_login_submit_valid:
  assumes "isValidEmail (trim (email_value s))" and "6 \<le> length (password_value s)"
  shows "snd (api_login_submit h s) =
           Awaiting (AwaitFetch
             \<lparr>url = js ''http://localhost:3000/auth/login'', http_method = js ''POST'',
              headers = [(js ''Content-Type'', js ''application/json'')],
              body = JSON_stringify h
                       (JObj [(js ''email'', JStr (trim (email_value s))),
                              (js ''password'', JStr (password_value s))])\<rparr>)"
    and "btnLogin_disabled (fst (api_login_submit h s))"
    and "btnLogin_text (fst (api_login_submit h s)) = js ''Ingresando...''"
  using assms
  by (simp_all add: api_login_submit_eq login_request_def login_setLoading_def)

lemma demo_login_submit_no_fetch:
  "fst (snd (demo_login_submit s)) \<noteq> Awaiting (AwaitFetch rq)"
  by (simp add: demo_login_submit_eq)

text \<open>
  Claim C8, as the code has it by design. A submission that passes validation in the
  login script that calls the API disables the button, labels it \<open>Ingresando...\<close> and
  issues a POST to \<open>/auth/login\<close> with the JSON of \<open>{email, password}\<close>. On a status
  outside 200 to 299 with a JSON body other than \<open>null\<close>, the message area is displayed
  and shows: the text of \<open>login_bad_credentials_msg\<close> when the body's \<open>detail\<close> is missing
  or falsy; when \<open>detail\<close> is truthy and has a string form, that string, or the text of
  \<open>login_failed_msg\<close> if that string is empty. The script with the simulated login never
  issues a request. (Bodies that are not JSON, a \<open>null\<close> body and a \<open>detail\<close> without a
  string form are left out of the statement.)
\<close>

theorem api_login_posts_and_reports:
  "(isValidEmail (trim (email_value s)) \<and> 6 \<le> length (password_value s) \<longrightarrow>
      snd (api_login_submit h s) =
        Awaiting (AwaitFetch
          \<lparr>url = js ''http://localhost:3000/auth/login'', http_method = js ''POST'',
           headers = [(js ''Content-Type'', js ''application/json'')],
           body = JSON_stringify h
                    (JObj [(js ''email'', JStr (trim (email_value s))),
                           (js ''password'', JStr (password_value s))])\<rparr>) \<and>
      btnLogin_disabled (fst (api_login_submit h s)) \<and>
      btnLogin_text (fst (api_login_submit h s)) = js ''Ingresando...'') \<and>
   (\<not> res_ok status \<and> \<not> nullish data \<and> \<not> truthy (opt_prop h data (js ''detail'')) \<longrightarrow>
      formMsg_text (api_login_settle h (FetchResponse status (BodyJson data)) t) =
        login_bad_credentials_msg \<and>
      formMsg_display (api_login_settle h (FetchResponse status (BodyJson data)) t) = js ''block'') \<and>
   (\<not> res_ok status \<and> \<not> nullish data \<and> truthy (opt_prop h data (js ''detail'')) \<and>
    ToString h (opt_prop h data (js ''detail'')) = Inr str \<longrightarrow>
      formMsg_text (api_login_settle h (FetchResponse status (BodyJson data)) t) =
        (if str \<noteq> [] then str else login_failed_msg) \<and>
      formMsg_display (api_login_settle h (FetchResponse status (BodyJson data)) t) = js ''block'') \<and>
   fst (snd (demo_login_submit s)) \<noteq> Awaiting (AwaitFetch rq)"
  using api_login_submit_valid [of s h]
    api_login_settle_refused(1) [where status = status and data = data and h = h and t = t]
    api_login_settle_refused(2)
      [where status = status and data = data and h = h and t = t and str = str]
    api_login_settle_refused(3) [where status = status and data = data and h = h and t = t]
    demo_login_submit_no_fetch [of s rq]
  by blast

theorem api_login_posts_and_reports_witness:
  "isValidEmail (trim (email_value login_example)) \<and>
   6 \<le> length (password_value login_example) \<and>
   snd (api_login_submit host_example login_example) =
     Awaiting (AwaitFetch
       \<lparr>url = js ''http://localhost:3000/auth/login'', http_method = js ''POST'',
        headers = [(js ''Content-Type'', js ''application/json'')], body = js ''{}''\<rparr>) \<and>
   btnLogin_disabled (fst (api_login_submit host_example login_example)) \<and>
   btnLogin_text (fst (api_login_submit host_example login_example)) = js ''Ingresando...'' \<and>
   \<not> res_ok 401 \<and>
   formMsg_text (api_login_settle host_example
      (FetchResponse 401 (BodyJson (JObj [(js ''detail'', JStr (js ''Cuenta bloqueada''))])))
      login_example) = js ''Cuenta bloqueada'' \<and>
   formMsg_text (api_login_settle host_example
      (FetchResponse 401 (BodyJson (JObj [(js ''detail'', JArr [])]))) login_example)
     = login_failed_msg \<and>
   formMsg_text (api_login_settle host_example (FetchResponse 401 (BodyJson (JObj [])))
      login_example) = login_bad_credentials_msg"
proof -
  let ?d = "JObj [(js ''detail'', JStr (js ''Cuenta bloqueada''))]"
  let ?a = "JObj [(js ''detail'', JArr [])]"
  have str: "JSON_stringify host_example v = js ''{}''" for v
    by (simp add: host_example_def)
  have nn: "\<not> nullish ?d" "\<not> nullish ?a" "\<not> nullish (JObj [])" by simp_all
  have d: "opt_prop host_example ?d (js ''detail'') = JStr (js ''Cuenta bloqueada'')"
    "opt_prop host_example ?a (js ''detail'') = JArr []"
    "opt_prop host_example (JObj []) (js ''detail'') = JUndefined"
    by (simp_all add: opt_prop_def)
  have ne: "js ''Cuenta bloqueada'' \<noteq> []" by (simp add: js_def)
  have ts: "ToString host_example (JStr (js ''Cuenta bloqueada'')) = Inr (js ''Cuenta bloqueada'')"
    "ToString host_example (JArr []) = Inr []"
    by simp_all
  have s: "snd (api_login_submit host_example login_example) =
     Awaiting (AwaitFetch
       \<lparr>url = js ''http://localhost:3000/auth/login'', http_method = js ''POST'',
        headers = [(js ''Content-Type'', js ''application/json'')], body = js ''{}''\<rparr>)"
    "btnLogin_disabled (fst (api_login_submit host_example login_example))"
    "btnLogin_text (fst (api_login_submit host_example login_example)) = js ''Ingresando...''"
    using api_login_posts_and_reports [of login_example host_example] login_example_valid
    by (simp_all add: str)
  have m1: "formMsg_text (api_login_settle host_example (FetchResponse 401 (BodyJson ?d))
              login_example) = js ''Cuenta bloqueada''"
    using api_login_posts_and_reports
      [of login_example host_example 401 ?d login_example "js ''Cuenta bloqueada''"]
      res_ok_examples nn ts
    by (simp add: d ne)
  have m2: "formMsg_text (api_login_settle host_example (FetchResponse 401 (BodyJson ?a))
              login_example) = login_failed_msg"
    using api_login_posts_and_reports [of login_example host_example 401 ?a login_example "[]"]
      res_ok_examples nn ts
    by (simp add: d)
  have m3: "formMsg_text (api_login_settle host_example (FetchResponse 401 (BodyJson (JObj [])))
              login_example) = login_bad_credentials_msg"
    using api_login_posts_and_reports [of login_example host_example 401 "JObj []" login_example]
      res_ok_examples nn
    by (simp add: d)
  show ?thesis
    using login_example_valid s res_ok_examples(2) m1 m2 m3 by blast
qed

text \<open>
  The claim as first stated, for every login submission, fails on the script with the
  simulated login: a submission that passes validation suspends on a timer of 600 ms,
  not on the request to \<open>/auth/login\<close>.
\<close>

theorem login_posts_and_reports_counterexample:
  "isValidEmail (trim (email_value login_example)) \<and>
   6 \<le> length (password_value login_example) \<and>
   fst (snd (demo_login_submit login_example)) = Awaiting (AwaitTimeout 600) \<and>
   fst (snd (demo_login_submit login_example)) \<noteq>
     Awaiting (AwaitFetch (login_request host_example (trim (email_value login_example))
                             (password_value login_example)))"
proof -
  have d: "fst (snd (demo_login_submit login_example)) = Awaiting (AwaitTimeout 600)"
    using login_example_valid by (simp add: demo_login_submit_eq)
  show ?thesis
    using login_example_valid d demo_login_submit_no_fetch by blast
qed

section \<open>A create-user response without a body\<close>

lemma admin_settle_created:
  assumes "res_ok status" and "status \<noteq> 204" and "\<not> nullish data"
    and "created_msg h (opt_prop h data (js ''email'')) (opt_prop h data (js ''role'')) = Inr text"
  shows "admin_settle h (FetchResponse status (BodyJson data)) s =
           (set_roleEl_value (js ''user'')
              (form_reset
                 ((admin_setLoading False s)\<lparr>msg_className := js ''msg ok'', msg_text := text\<rparr>)),
            Returned)"
proof -
  have "status \<noteq> 401" using assms(1) by (auto simp: res_ok_def)
  then show ?thesis
    using assms
    by (simp add: admin_settle_def apiFetch_settle_def get_prop_not_nullish showMsg_def)
       (simp add: js_def)
qed

text \<open>
  Claim C5 asks that a success, the 204 one included, shows the confirmation, resets the
  form and re-defaults the role. For a 204, \<open>apiFetch\<close> returns \<open>data: null\<close> with
  \<open>ok: true\<close>, and the handler then reads \<open>r.data.email\<close>: a TypeError. The handler
  stops after \<open>setLoading(false)\<close>: no message is shown and no field is reset. (A
  success with a JSON body other than \<open>null\<close> does all three: \<open>admin_settle_created\<close>.)
\<close>

theorem no_content_success_throws:
  "admin_settle h (FetchResponse 204 b) s =
     (admin_setLoading False s, Thrown (TypeError (nullish_read_message h JNull (js ''email'')))) \<and>
   msg_text (fst (admin_settle h (FetchResponse 204 b) s)) = msg_text s \<and>
   nameEl_value (fst (admin_settle h (FetchResponse 204 b) s)) = nameEl_value s \<and>
   roleEl_value (fst (admin_settle h (FetchResponse 204 b) s)) = roleEl_value s"
  by (simp add: admin_settle_def apiFetch_settle_def admin_setLoading_def)


section \<open>Loading the admin page\<close>

lemma admin_load_absent:
  assumes "localStorage s session_key = None \<or> localStorage s session_key = Some []"
  shows "admin_load h s =
           (goLogin (s\<lparr>session_var := JNull\<rparr>),
            Thrown (TypeError (nullish_read_message h JNull (js ''user''))))"
  using assms by (auto simp: admin_load_def)

lemma admin_load_absent_fields:
  assumes "localStorage s session_key = None \<or> localStorage s session_key = Some []"
  shows "localStorage (fst (admin_load h s)) session_key = None"
    and "href_writes (fst (admin_load h s)) = href_writes s @ [login_html]"
    and "subtitle_text (fst (admin_load h s)) = subtitle_text s"
    and "listeners (fst (admin_load h s)) = listeners s"
    and "alerts (fst (admin_load h s)) = alerts s"
  by (simp_all add: admin_load_absent [OF assms] goLogin_def set_href_def)

lemma opt_prop_undefined [simp]: "opt_prop h JUndefined k = JUndefined"
  by (simp add: opt_prop_def)

lemma subtitle_of_undefined:
  "subtitle_of h JUndefined =
     Inr (js ''Sesi'' @ [0xF3] @ js ''n: admin '' @ [0xB7] @ js '' rol: undefined'')"
  by (simp add: subtitle_of_def js_def)

text \<open>
  Claim C7 asks that a load with an absent or tokenless session clears the entry and
  redirects to the login page before anything else is rendered. With no entry the script
  indeed stops right after \<open>goLogin()\<close> (\<open>admin_load_absent\<close>, by the TypeError of line
  15). With a stored object that has neither \<open>token\<close> nor \<open>user\<close>, such as \<open>{}\<close>, the
  script runs to its end: after the entry is removed and the login page written to the
  location, it alerts, writes the dashboard to the location (the navigation that then
  takes place), renders the subtitle and registers the listeners.
\<close>

theorem tokenless_session_load_runs_on:
  assumes "localStorage s session_key = Some raw" and "raw \<noteq> []"
    and "JSON_parse h raw = Inr (JObj kvs)"
    and "map_of kvs (js ''token'') = None" and "map_of kvs (js ''user'') = None"
  shows "snd (admin_load h s) = Returned \<and>
         localStorage (fst (admin_load h s)) session_key = None \<and>
         href_writes (fst (admin_load h s)) = href_writes s @ [login_html, dashboard_html] \<and>
         alerts (fst (admin_load h s)) = alerts s @ [unauthorized_msg] \<and>
         subtitle_text (fst (admin_load h s)) =
           js ''Sesi'' @ [0xF3] @ js ''n: admin '' @ [0xB7] @ js '' rol: undefined'' \<and>
         listeners (fst (admin_load h s)) = listeners s @ [LogoutClick, TogglePassClick, FormSubmit]"
  using assms
  by (simp add: admin_load_def goLogin_def set_href_def subtitle_of_undefined)

theorem tokenless_session_load_runs_on_witness:
  "localStorage admin_example session_key = Some (js ''{}'') \<and> js ''{}'' \<noteq> [] \<and>
   JSON_parse host_example (js ''{}'') = Inr (JObj []) \<and>
   snd (admin_load host_example admin_example) = Returned \<and>
   localStorage (fst (admin_load host_example admin_example)) session_key = None \<and>
   href_writes (fst (admin_load host_example admin_example)) = [login_html, dashboard_html] \<and>
   alerts (fst (admin_load host_example admin_example)) = [unauthorized_msg] \<and>
   listeners (fst (admin_load host_example admin_example)) = [LogoutClick, TogglePassClick, FormSubmit]"
proof -
  have a: "localStorage admin_example session_key = Some (js ''{}'')"
    by (simp add: admin_example_def)
  have b: "js ''{}'' \<noteq> []" by (simp add: js_def)
  have c: "JSON_parse host_example (js ''{}'') = Inr (JObj [])"
    by (simp add: host_example_def)
  have d: "href_writes admin_example = []" "alerts admin_example = []" "listeners admin_example = []"
    by (simp_all add: admin_example_def)
  show ?thesis
    using tokenless_session_load_runs_on [OF a b c] a b c d by simp
qed

section \<open>Clicking the toggle twice\<close>

lemma js_password_neq_text [simp]: "js ''password'' \<noteq> js ''text''" "js ''text'' \<noteq> js ''password''"
  by (simp_all add: js_def)

lemma eye_neq_monkey [simp]: "eye_label \<noteq> monkey_label" "monkey_label \<noteq> eye_label"
  by (simp_all add: eye_label_def monkey_label_def)

lemma toggle_click_cases:
  "toggle_click (t, l) = (if t = js ''password'' then (js ''text'', monkey_label)
                          else (js ''password'', eye_label))"
  by (simp add: toggle_click_def)

lemma login_toggle_twice:
  "(password_type s = js ''password'' \<and> togglePass_text s = eye_label) \<or>
   (password_type s = js ''text'' \<and> togglePass_text s = monkey_label)
     \<Longrightarrow> login_togglePass_click (login_togglePass_click s) = s"
  by (cases s) (auto simp: login_togglePass_click_def toggle_click_cases)

lemma admin_toggle_twice:
  "(passEl_type a = js ''password'' \<and> adminToggle_text a = eye_label) \<or>
   (passEl_type a = js ''text'' \<and> adminToggle_text a = monkey_label)
     \<Longrightarrow> admin_togglePass_click (admin_togglePass_click a) = a"
  by (cases a) (auto simp: admin_togglePass_click_def toggle_click_cases)

lemma toggle_flips:
  "password_type s = js ''password'' \<Longrightarrow> password_type (login_togglePass_click s) = js ''text''"
  "password_type s = js ''text'' \<Longrightarrow> password_type (login_togglePass_click s) = js ''password''"
  "passEl_type a = js ''password'' \<Longrightarrow> passEl_type (admin_togglePass_click a) = js ''text''"
  "passEl_type a = js ''text'' \<Longrightarrow> passEl_type (admin_togglePass_click a) = js ''password''"
  by (simp_all add: login_togglePass_click_def admin_togglePass_click_def toggle_click_cases)

lemma toggle_thrice:
  "login_togglePass_click (login_togglePass_click (login_togglePass_click s)) =
     login_togglePass_click s"
  "admin_togglePass_click (admin_togglePass_click (admin_togglePass_click a)) =
     admin_togglePass_click a"
  by (cases s, simp add: login_togglePass_click_def toggle_click_cases,
      cases a, simp add: admin_togglePass_click_def toggle_click_cases)

text \<open>
  Claim C10, as the code has it. From a state in which the input's type is \<open>password\<close>
  with the eye as label, or \<open>text\<close> with the monkey as label (the two states the handler
  itself produces), two clicks restore the page, on the login page and on the admin
  page. One click turns \<open>password\<close> into \<open>text\<close> and \<open>text\<close> into \<open>password\<close>. From any
  state, three clicks are one click.
\<close>

theorem togglePass_click_twice:
  "((password_type s = js ''password'' \<and> togglePass_text s = eye_label) \<or>
    (password_type s = js ''text'' \<and> togglePass_text s = monkey_label)
      \<longrightarrow> login_togglePass_click (login_togglePass_click s) = s) \<and>
   ((passEl_type a = js ''password'' \<and> adminToggle_text a = eye_label) \<or>
    (passEl_type a = js ''text'' \<and> adminToggle_text a = monkey_label)
      \<longrightarrow> admin_togglePass_click (admin_togglePass_click a) = a) \<and>
   (password_type s = js ''password'' \<longrightarrow> password_type (login_togglePass_click s) = js ''text'') \<and>
   (password_type s = js ''text'' \<longrightarrow> password_type (login_togglePass_click s) = js ''password'') \<and>
   (passEl_type a = js ''password'' \<longrightarrow> passEl_type (admin_togglePass_click a) = js ''text'') \<and>
   (passEl_type a = js ''text'' \<longrightarrow> passEl_type (admin_togglePass_click a) = js ''password'') \<and>
   login_togglePass_click (login_togglePass_click (login_togglePass_click s)) = login_togglePass_click s \<and>
   admin_togglePass_click (admin_togglePass_click (admin_togglePass_click a)) = admin_togglePass_click a"
  using login_toggle_twice [of s] admin_toggle_twice [of a] toggle_flips(1,2) [of s]
    toggle_flips(3,4) [of a] toggle_thrice(1) [of s] toggle_thrice(2) [of a]
  by blast

theorem togglePass_click_twice_witness:
  "password_type login_example = js ''password'' \<and> togglePass_text login_example = eye_label \<and>
   login_togglePass_click (login_togglePass_click login_example) = login_example \<and>
   password_type (login_togglePass_click login_example) = js ''text'' \<and>
   password_type (login_togglePass_click (login_togglePass_click login_example)) = js ''password'' \<and>
   passEl_type admin_example = js ''password'' \<and> adminToggle_text admin_example = eye_label \<and>
   admin_togglePass_click (admin_togglePass_click admin_example) = admin_example \<and>
   passEl_type (admin_togglePass_click admin_example) = js ''text'' \<and>
   passEl_type (admin_togglePass_click (admin_togglePass_click admin_example)) = js ''password''"
proof -
  have l: "password_type login_example = js ''password''" "togglePass_text login_example = eye_label"
    by (simp_all add: login_example_def)
  have a: "passEl_type admin_example = js ''password''" "adminToggle_text admin_example = eye_label"
    by (simp_all add: admin_example_def)
  have l1: "password_type (login_togglePass_click login_example) = js ''text''"
    using togglePass_click_twice [of login_example admin_example] l by blast
  have a1: "passEl_type (admin_togglePass_click admin_example) = js ''text''"
    using togglePass_click_twice [of login_example admin_example] a by blast
  have l2: "password_type (login_togglePass_click (login_togglePass_click login_example)) = js ''password''"
    using togglePass_click_twice [of "login_togglePass_click login_example" admin_example] l1 by blast
  have a2: "passEl_type (admin_togglePass_click (admin_togglePass_click admin_example)) = js ''password''"
    using togglePass_click_twice [of login_example "admin_togglePass_click admin_example"] a1 by blast
  show ?thesis
    using togglePass_click_twice [of login_example admin_example] l a l1 a1 l2 a2 by blast
qed

text \<open>
  From any state whatever, the claim fails: a label that the handler did not write is
  not restored, and neither is a type other than \<open>password\<close> and \<open>text\<close>.
\<close>

theorem togglePass_click_twice_counterexample:
  "togglePass_text (login_togglePass_click (login_togglePass_click
      (login_example\<lparr>togglePass_text := js ''Ver''\<rparr>))) = eye_label \<and>
   eye_label \<noteq> js ''Ver'' \<and>
   password_type (login_togglePass_click (login_togglePass_click
      (login_example\<lparr>password_type := js ''email''\<rparr>))) = js ''text'' \<and>
   js ''text'' \<noteq> js ''email''"
  by (simp add: login_togglePass_click_def toggle_click_cases login_example_def
      eye_label_def js_def)

end
